theory Spec2Isabelle
  imports Main "HOL-Library.Word" "HOL-Library.Char_ord" "HOL-Library.List_Lexorder"
    "HOL-Library.Option_ord"
begin

section \<open>The bundle store of csqlite.c over a model of its SQLite connection\<close>

text \<open>
  The functions of \<^verbatim>\<open>Sources/CSQLite/csqlite.c\<close> that open, write and read the
  store are embedded here as state-passing functions. Each takes the connection as a
  nullable handle and returns its result code together with the handle's new contents.
  Releasing memory (\<^verbatim>\<open>csqlite_close\<close> and the \<^verbatim>\<open>csqlite_free_*\<close> helpers) does not
  touch the tables and is not modelled. The platform is LP64:
  \<^verbatim>\<open>size_t\<close> and \<^verbatim>\<open>uint64_t\<close> are \<open>64 word\<close>, \<^verbatim>\<open>int\<close> is \<open>32 word\<close> read by \<open>sint\<close>.
  A C pointer is an \<open>option\<close>: \<open>None\<close> is \<^verbatim>\<open>NULL\<close>, \<open>Some v\<close> points to \<open>v\<close>.
  A C string is the \<open>string\<close> of its characters before the terminating zero; a
  buffer is the list of its bytes.
\<close>

subsection \<open>csqlite.h\<close>

datatype CSQLiteResult =
    CSQLITE_OK
  | CSQLITE_ERROR
  | CSQLITE_NOT_FOUND
  | CSQLITE_CONSTRAINT

type_synonym byte = "8 word"
type_synonym size_t = "64 word"
type_synonym uint64_t = "64 word"
type_synonym c_int = "32 word"

text \<open>
  \<^verbatim>\<open>CSQLiteBundleMetadata\<close>: the three \<^verbatim>\<open>const char*\<close> fields may be \<^verbatim>\<open>NULL\<close>.
  The field names carry the prefix \<open>m_\<close> (\<open>id\<close> and \<open>size\<close> are constants of HOL).
\<close>

record CSQLiteBundleMetadata =
  m_id :: "string option"
  m_source :: "string option"
  m_destination :: "string option"
  m_creation_time :: uint64_t
  m_size :: uint64_t
  m_constraints :: c_int

subsection \<open>The SQLite connection\<close>

text \<open>
  SQLite is the external collaborator of the store. It is modelled for exactly the
  statements that occur in csqlite.c, which are the constructors of \<open>sql\<close>:
  \<^item> \<open>CREATE_TABLES_SQL\<close>: the schema of lines 9 to 22;
  \<^item> \<open>PRAGMA_foreign_keys\<close>: \<^verbatim>\<open>PRAGMA foreign_keys = ON;\<close>
  \<^item> \<open>BEGIN_TRANSACTION\<close>, \<open>ROLLBACK\<close>, \<open>COMMIT\<close>;
  \<^item> \<open>insert_bundle_sql\<close>: \<^verbatim>\<open>INSERT INTO bundles (id, data) VALUES (?, ?);\<close>
  \<^item> \<open>insert_metadata_sql\<close>: \<^verbatim>\<open>INSERT INTO bundle_metadata (id, source, destination, creation_time, size, constraints) VALUES (?, ?, ?, ?, ?, ?);\<close>
  \<^item> \<open>select_data_sql\<close>: \<^verbatim>\<open>SELECT data FROM bundles WHERE id = ?;\<close>
  \<^item> \<open>select_metadata_sql\<close>: \<^verbatim>\<open>SELECT id, source, destination, creation_time, size, constraints FROM bundle_metadata WHERE id = ?;\<close>
  \<^item> \<open>update_sql\<close>: \<^verbatim>\<open>UPDATE bundle_metadata SET source = ?, destination = ?, creation_time = ?, size = ?, constraints = ? WHERE id = ?;\<close>
  \<^item> \<open>delete_sql\<close>: \<^verbatim>\<open>DELETE FROM bundles WHERE id = ?;\<close>
  \<^item> \<open>select_1_sql\<close>: \<^verbatim>\<open>SELECT 1 FROM bundles WHERE id = ? LIMIT 1;\<close>
  \<^item> \<open>select_count_sql\<close>: \<^verbatim>\<open>SELECT COUNT(*) FROM bundles;\<close>
  \<^item> \<open>select_ids_sql\<close>: \<^verbatim>\<open>SELECT id FROM bundles;\<close>
  \<^item> \<open>select_all_metadata_sql\<close>: \<^verbatim>\<open>SELECT id, source, destination, creation_time, size, constraints FROM bundle_metadata;\<close>
\<close>

datatype sql =
    CREATE_TABLES_SQL
  | PRAGMA_foreign_keys
  | BEGIN_TRANSACTION
  | ROLLBACK
  | COMMIT
  | insert_bundle_sql
  | insert_metadata_sql
  | select_data_sql
  | select_metadata_sql
  | update_sql
  | delete_sql
  | select_1_sql
  | select_count_sql
  | select_ids_sql
  | select_all_metadata_sql

text \<open>The result codes of SQLite that the code tests or that a failing call returns.\<close>

datatype rc =
    SQLITE_OK
  | SQLITE_ERROR
  | SQLITE_BUSY
  | SQLITE_NOMEM
  | SQLITE_IOERR
  | SQLITE_FULL
  | SQLITE_TOOBIG
  | SQLITE_CONSTRAINT
  | SQLITE_ROW
  | SQLITE_DONE

text \<open>
  A failure of the backend that does not depend on the contents of the tables: the
  database is locked, memory or disk is exhausted, input or output fails, or a row
  exceeds the length limit.
\<close>

datatype fault = Busy | Nomem | Ioerr | Full | Toobig

fun rc_of_fault :: "fault \<Rightarrow> rc" where
  "rc_of_fault Busy = SQLITE_BUSY"
| "rc_of_fault Nomem = SQLITE_NOMEM"
| "rc_of_fault Ioerr = SQLITE_IOERR"
| "rc_of_fault Full = SQLITE_FULL"
| "rc_of_fault Toobig = SQLITE_TOOBIG"

text \<open>A value of SQLite: a column of a row, or a bound parameter.\<close>

datatype val =
    NULL
  | INTEGER "64 word"
  | TEXT string
  | BLOB "byte list"

text \<open>A row of \<^verbatim>\<open>bundles\<close> and a row of \<^verbatim>\<open>bundle_metadata\<close>, column by column.\<close>

record bundle_row =
  b_id :: val
  b_data :: val

record metadata_row =
  r_id :: val
  r_source :: val
  r_destination :: val
  r_creation_time :: val
  r_size :: val
  r_constraints :: val

text \<open>
  The connection \<^verbatim>\<open>sqlite3*\<close>: both tables in the order of their row ids, which
  is the order of insertion, the foreign-key switch of the connection (off until the
  pragma runs), the tables as they were when the open transaction began (\<open>None\<close> in
  autocommit mode), and the counter read by \<^verbatim>\<open>sqlite3_changes\<close>.
\<close>

record sqlite3 =
  bundles :: "bundle_row list"
  bundle_metadata :: "metadata_row list"
  foreign_keys :: bool
  journal :: "(bundle_row list \<times> metadata_row list) option"
  changes :: nat

text \<open>
  The environment of a call: which statements the backend fails to compile or to run,
  whether \<^verbatim>\<open>sqlite3_open\<close> fails, for which sizes \<^verbatim>\<open>malloc\<close> returns a block
  (\<^verbatim>\<open>malloc(0)\<close> may return \<^verbatim>\<open>NULL\<close> on a conforming platform), the rows of
  the database file that \<^verbatim>\<open>sqlite3_open\<close> finds at a path, and the value that
  \<^verbatim>\<open>sqlite3_bind_blob\<close> binds when it is given a buffer and a negative length. SQLite
  leaves that case undefined: a build with argument checks refuses the call and the
  parameter stays \<open>NULL\<close>; a build without them reads on from the start of the buffer
  to a terminator, which may lie beyond the buffer, and binds what it has read.
\<close>

record env =
  prepare_fault :: "sql \<Rightarrow> fault option"
  step_fault :: "sql \<Rightarrow> fault option"
  open_fault :: "fault option"
  malloc :: "nat \<Rightarrow> bool"
  disk :: "string option \<Rightarrow> bundle_row list \<times> metadata_row list"
  bind_negative :: "byte list \<Rightarrow> val"

text \<open>A prepared statement: its text, its parameters (numbered from 1, \<open>NULL\<close> until
  bound), the row it stands on after \<^verbatim>\<open>SQLITE_ROW\<close> and the number of rows already
  returned.\<close>

record sqlite3_stmt =
  stmt_sql :: sql
  param :: "nat \<Rightarrow> val"
  row :: "val list"
  pos :: nat

text \<open>\<open>WHERE id = ?\<close>: a comparison with \<open>NULL\<close> is never true.\<close>

definition sql_eq :: "val \<Rightarrow> val \<Rightarrow> bool" where
  "sql_eq a b \<longleftrightarrow> a \<noteq> NULL \<and> a = b"

definition metadata_columns :: "metadata_row \<Rightarrow> val list" where
  "metadata_columns r =
     [r_id r, r_source r, r_destination r, r_creation_time r, r_size r, r_constraints r]"

text \<open>
  The key by which the index of the primary key of \<^verbatim>\<open>bundles\<close> orders the ids that
  csqlite.c stores, which are texts or \<open>NULL\<close>: \<open>NULL\<close> first, then the texts byte by
  byte, a prefix before its extensions.
\<close>

definition id_key :: "val \<Rightarrow> string option" where
  "id_key v = (case v of TEXT s \<Rightarrow> Some s | _ \<Rightarrow> None)"

text \<open>
  The rows a \<^verbatim>\<open>SELECT\<close> of the source produces. SQL leaves the order open; SQLite
  scans \<^verbatim>\<open>bundle_metadata\<close> in table order, and answers \<^verbatim>\<open>SELECT id FROM bundles\<close>
  from the index of the primary key, in the order of the ids (rows with equal keys in
  table order).
\<close>

fun result_set :: "sqlite3 \<Rightarrow> sql \<Rightarrow> (nat \<Rightarrow> val) \<Rightarrow> val list list" where
  "result_set d select_data_sql p =
     map (\<lambda>r. [b_data r]) (filter (\<lambda>r. sql_eq (b_id r) (p 1)) (bundles d))"
| "result_set d select_metadata_sql p =
     map metadata_columns (filter (\<lambda>r. sql_eq (r_id r) (p 1)) (bundle_metadata d))"
| "result_set d select_1_sql p =
     take 1 (map (\<lambda>r. [INTEGER 1]) (filter (\<lambda>r. sql_eq (b_id r) (p 1)) (bundles d)))"
| "result_set d select_count_sql p = [[INTEGER (of_nat (length (bundles d)))]]"
| "result_set d select_ids_sql p =
     map (\<lambda>r. [b_id r]) (sort_key (\<lambda>r. id_key (b_id r)) (bundles d))"
| "result_set d select_all_metadata_sql p = map metadata_columns (bundle_metadata d)"
| "result_set d _ p = []"

fun is_select :: "sql \<Rightarrow> bool" where
  "is_select select_data_sql = True"
| "is_select select_metadata_sql = True"
| "is_select select_1_sql = True"
| "is_select select_count_sql = True"
| "is_select select_ids_sql = True"
| "is_select select_all_metadata_sql = True"
| "is_select _ = False"

text \<open>
  The statements that write. The schema decides what an insert or update rejects with
  \<^verbatim>\<open>SQLITE_CONSTRAINT\<close>:
  \<^item> \<^verbatim>\<open>data BLOB NOT NULL\<close> and the five \<^verbatim>\<open>NOT NULL\<close> columns of the metadata;
  \<^item> \<^verbatim>\<open>id TEXT PRIMARY KEY\<close>: no two rows with the same id. SQLite admits \<open>NULL\<close> in a
    primary key that is not an integer key, and \<open>NULL\<close> never collides;
  \<^item> \<^verbatim>\<open>FOREIGN KEY(id) REFERENCES bundles(id)\<close>, when the connection enforces foreign
    keys: a metadata id that is not \<open>NULL\<close> needs a bundle with that id;
  \<^item> \<^verbatim>\<open>ON DELETE CASCADE\<close>, when the connection enforces foreign keys: deleting a
    bundle deletes the metadata rows that refer to it.
  A rejected statement changes no row and sets the counter of \<^verbatim>\<open>sqlite3_changes\<close>
  to 0. A statement that completes sets the counter to the number of rows it inserted,
  updated or deleted itself; rows deleted by the cascade are not counted. The
  statements that begin and end a transaction leave the counter as it is.
\<close>

fun execute :: "sqlite3 \<Rightarrow> sql \<Rightarrow> (nat \<Rightarrow> val) \<Rightarrow> rc \<times> sqlite3" where
  "execute d CREATE_TABLES_SQL p = (SQLITE_DONE, d)"
| "execute d PRAGMA_foreign_keys p =
     (SQLITE_DONE, if journal d = None then d\<lparr>foreign_keys := True\<rparr> else d)"
| "execute d BEGIN_TRANSACTION p =
     (case journal d of
        Some j \<Rightarrow> (SQLITE_ERROR, d)
      | None \<Rightarrow> (SQLITE_DONE, d\<lparr>journal := Some (bundles d, bundle_metadata d)\<rparr>))"
| "execute d ROLLBACK p =
     (case journal d of
        None \<Rightarrow> (SQLITE_ERROR, d)
      | Some (b, m) \<Rightarrow> (SQLITE_DONE, d\<lparr>bundles := b, bundle_metadata := m, journal := None\<rparr>))"
| "execute d COMMIT p =
     (case journal d of
        None \<Rightarrow> (SQLITE_ERROR, d)
      | Some j \<Rightarrow> (SQLITE_DONE, d\<lparr>journal := None\<rparr>))"
| "execute d insert_bundle_sql p =
     (if p 2 = NULL
         \<or> (p 1 \<noteq> NULL \<and> list_ex (\<lambda>r. b_id r = p 1) (bundles d))
      then (SQLITE_CONSTRAINT, d\<lparr>changes := 0\<rparr>)
      else (SQLITE_DONE,
            d\<lparr>bundles := bundles d @ [\<lparr>b_id = p 1, b_data = p 2\<rparr>], changes := 1\<rparr>))"
| "execute d insert_metadata_sql p =
     (if p 2 = NULL \<or> p 3 = NULL \<or> p 4 = NULL \<or> p 5 = NULL \<or> p 6 = NULL
         \<or> (p 1 \<noteq> NULL \<and> list_ex (\<lambda>r. r_id r = p 1) (bundle_metadata d))
         \<or> (foreign_keys d \<and> p 1 \<noteq> NULL \<and> \<not> list_ex (\<lambda>r. b_id r = p 1) (bundles d))
      then (SQLITE_CONSTRAINT, d\<lparr>changes := 0\<rparr>)
      else (SQLITE_DONE,
            d\<lparr>bundle_metadata := bundle_metadata d @
                 [\<lparr>r_id = p 1, r_source = p 2, r_destination = p 3,
                   r_creation_time = p 4, r_size = p 5, r_constraints = p 6\<rparr>],
              changes := 1\<rparr>))"
| "execute d update_sql p =
     (if list_ex (\<lambda>r. sql_eq (r_id r) (p 6)) (bundle_metadata d)
         \<and> (p 1 = NULL \<or> p 2 = NULL \<or> p 3 = NULL \<or> p 4 = NULL \<or> p 5 = NULL)
      then (SQLITE_CONSTRAINT, d\<lparr>changes := 0\<rparr>)
      else (SQLITE_DONE,
            d\<lparr>bundle_metadata :=
                 map (\<lambda>r. if sql_eq (r_id r) (p 6)
                          then r\<lparr>r_source := p 1, r_destination := p 2,
                                 r_creation_time := p 3, r_size := p 4, r_constraints := p 5\<rparr>
                          else r)
                     (bundle_metadata d),
              changes := length (filter (\<lambda>r. sql_eq (r_id r) (p 6)) (bundle_metadata d))\<rparr>))"
| "execute d delete_sql p =
     (SQLITE_DONE,
      d\<lparr>bundles := filter (\<lambda>r. \<not> sql_eq (b_id r) (p 1)) (bundles d),
        bundle_metadata :=
          (if foreign_keys d \<and> list_ex (\<lambda>r. sql_eq (b_id r) (p 1)) (bundles d)
           then filter (\<lambda>r. \<not> sql_eq (r_id r) (p 1)) (bundle_metadata d)
           else bundle_metadata d),
        changes := length (filter (\<lambda>r. sql_eq (b_id r) (p 1)) (bundles d))\<rparr>)"
| "execute d _ p = (SQLITE_ERROR, d)"

subsection \<open>The calls of the SQLite interface that csqlite.c makes\<close>

text \<open>\<^verbatim>\<open>sqlite3_open\<close>: a connection to the rows stored at the path, in autocommit
  mode, with foreign keys not yet enforced.\<close>

definition sqlite3_open :: "env \<Rightarrow> string option \<Rightarrow> rc + sqlite3" where
  "sqlite3_open e path =
     (case open_fault e of
        Some f \<Rightarrow> Inl (rc_of_fault f)
      | None \<Rightarrow> Inr \<lparr>bundles = fst (disk e path), bundle_metadata = snd (disk e path),
                    foreign_keys = False, journal = None, changes = 0\<rparr>)"

text \<open>\<^verbatim>\<open>sqlite3_prepare_v2\<close>: \<open>Inl\<close> is a result code other than \<^verbatim>\<open>SQLITE_OK\<close>.\<close>

definition sqlite3_prepare_v2 :: "env \<Rightarrow> sqlite3 \<Rightarrow> sql \<Rightarrow> rc + sqlite3_stmt" where
  "sqlite3_prepare_v2 e d q =
     (case prepare_fault e q of
        Some f \<Rightarrow> Inl (rc_of_fault f)
      | None \<Rightarrow> Inr \<lparr>stmt_sql = q, param = (\<lambda>i. NULL), row = [], pos = 0\<rparr>)"

text \<open>\<^verbatim>\<open>sqlite3_bind_text(stmt, i, s, -1, SQLITE_STATIC)\<close>: a \<^verbatim>\<open>NULL\<close> pointer binds
  \<open>NULL\<close>.\<close>

definition sqlite3_bind_text :: "sqlite3_stmt \<Rightarrow> nat \<Rightarrow> string option \<Rightarrow> sqlite3_stmt" where
  "sqlite3_bind_text stmt i s =
     stmt\<lparr>param := (param stmt)(i := (case s of None \<Rightarrow> NULL | Some str \<Rightarrow> TEXT str))\<rparr>"

text \<open>
  \<^verbatim>\<open>sqlite3_bind_blob(stmt, i, data, n, SQLITE_STATIC)\<close> binds the first \<open>n\<close> bytes
  at \<open>data\<close>; the caller of the store guarantees that the buffer holds at least that
  many. For a negative \<open>n\<close> the environment says what is bound. Strings and buffers
  are taken to be within the length limit of the connection, which is one thousand
  million bytes unless it was compiled otherwise.
\<close>

definition sqlite3_bind_blob ::
  "env \<Rightarrow> sqlite3_stmt \<Rightarrow> nat \<Rightarrow> byte list option \<Rightarrow> c_int \<Rightarrow> sqlite3_stmt" where
  "sqlite3_bind_blob e stmt i data n =
     stmt\<lparr>param := (param stmt)(i :=
       (case data of
          None \<Rightarrow> NULL
        | Some bytes \<Rightarrow>
            if sint n < 0 then bind_negative e bytes else BLOB (take (nat (sint n)) bytes)))\<rparr>"

definition sqlite3_bind_int64 :: "sqlite3_stmt \<Rightarrow> nat \<Rightarrow> 64 word \<Rightarrow> sqlite3_stmt" where
  "sqlite3_bind_int64 stmt i v = stmt\<lparr>param := (param stmt)(i := INTEGER v)\<rparr>"

text \<open>\<^verbatim>\<open>sqlite3_bind_int\<close> extends the sign of the \<^verbatim>\<open>int\<close> to 64 bits.\<close>

definition sqlite3_bind_int :: "sqlite3_stmt \<Rightarrow> nat \<Rightarrow> c_int \<Rightarrow> sqlite3_stmt" where
  "sqlite3_bind_int stmt i v = stmt\<lparr>param := (param stmt)(i := INTEGER (scast v))\<rparr>"

text \<open>
  \<^verbatim>\<open>sqlite3_step\<close>. A query returns \<^verbatim>\<open>SQLITE_ROW\<close> and stands on its next row, or
  \<^verbatim>\<open>SQLITE_DONE\<close> after the last; a writing statement runs once.
\<close>

definition sqlite3_step :: "env \<Rightarrow> sqlite3 \<Rightarrow> sqlite3_stmt \<Rightarrow> rc \<times> sqlite3 \<times> sqlite3_stmt" where
  "sqlite3_step e d stmt =
     (case step_fault e (stmt_sql stmt) of
        Some f \<Rightarrow> (rc_of_fault f, d, stmt)
      | None \<Rightarrow>
          if is_select (stmt_sql stmt) then
            (let rows = result_set d (stmt_sql stmt) (param stmt) in
             if pos stmt < length rows
             then (SQLITE_ROW, d, stmt\<lparr>row := rows ! pos stmt, pos := Suc (pos stmt)\<rparr>)
             else (SQLITE_DONE, d, stmt\<lparr>row := []\<rparr>))
          else
            (case execute d (stmt_sql stmt) (param stmt) of (r, d') \<Rightarrow> (r, d', stmt)))"

definition sqlite3_reset :: "sqlite3_stmt \<Rightarrow> sqlite3_stmt" where
  "sqlite3_reset stmt = stmt\<lparr>row := [], pos := 0\<rparr>"

text \<open>\<^verbatim>\<open>sqlite3_exec(db, sql, NULL, NULL, NULL)\<close> compiles and runs one statement
  that returns no rows.\<close>

definition sqlite3_exec :: "env \<Rightarrow> sqlite3 \<Rightarrow> sql \<Rightarrow> rc \<times> sqlite3" where
  "sqlite3_exec e d q =
     (case sqlite3_prepare_v2 e d q of
        Inl r \<Rightarrow> (r, d)
      | Inr stmt \<Rightarrow>
          (case sqlite3_step e d stmt of
             (r, d', stmt') \<Rightarrow> (if r = SQLITE_DONE then SQLITE_OK else r, d')))"

definition sqlite3_changes :: "sqlite3 \<Rightarrow> nat" where
  "sqlite3_changes d = changes d"

text \<open>The column readers, on the row the statement stands on. Read as a blob, a text
  is the bytes of its characters.\<close>

definition column :: "sqlite3_stmt \<Rightarrow> nat \<Rightarrow> val" where
  "column stmt i = (if i < length (row stmt) then row stmt ! i else NULL)"

definition sqlite3_column_text :: "sqlite3_stmt \<Rightarrow> nat \<Rightarrow> string option" where
  "sqlite3_column_text stmt i = (case column stmt i of TEXT s \<Rightarrow> Some s | _ \<Rightarrow> None)"

definition sqlite3_column_blob :: "sqlite3_stmt \<Rightarrow> nat \<Rightarrow> byte list" where
  "sqlite3_column_blob stmt i =
     (case column stmt i of
        BLOB b \<Rightarrow> b
      | TEXT s \<Rightarrow> map (\<lambda>c. of_nat (of_char c)) s
      | _ \<Rightarrow> [])"

definition sqlite3_column_bytes :: "sqlite3_stmt \<Rightarrow> nat \<Rightarrow> c_int" where
  "sqlite3_column_bytes stmt i = of_nat (length (sqlite3_column_blob stmt i))"

definition sqlite3_column_int64 :: "sqlite3_stmt \<Rightarrow> nat \<Rightarrow> 64 word" where
  "sqlite3_column_int64 stmt i = (case column stmt i of INTEGER v \<Rightarrow> v | _ \<Rightarrow> 0)"

definition sqlite3_column_int :: "sqlite3_stmt \<Rightarrow> nat \<Rightarrow> c_int" where
  "sqlite3_column_int stmt i = ucast (sqlite3_column_int64 stmt i)"

subsection \<open>csqlite.c\<close>

text \<open>\<^verbatim>\<open>sizeof(CSQLiteDB)\<close> and \<^verbatim>\<open>sizeof(char*)\<close>: one pointer each.\<close>

definition sizeof_pointer :: size_t where
  "sizeof_pointer = 8"

text \<open>\<^verbatim>\<open>sizeof(CSQLiteBundleMetadata)\<close>: three pointers, two 64-bit integers, an
  \<^verbatim>\<open>int\<close> and its padding.\<close>

definition sizeof_CSQLiteBundleMetadata :: size_t where
  "sizeof_CSQLiteBundleMetadata = 48"

text \<open>\<^verbatim>\<open>csqlite_strdup\<close>, lines 411 to 419.\<close>

definition csqlite_strdup :: "env \<Rightarrow> string option \<Rightarrow> string option" where
  "csqlite_strdup e str =
     (case str of
        None \<Rightarrow> None
      | Some s \<Rightarrow> (let len = length s + 1 in if malloc e len then Some s else None))"

text \<open>
  \<^verbatim>\<open>csqlite_open\<close>, lines 24 to 54. The second component is the cell behind
  \<^verbatim>\<open>result\<close>, written only when the pointer is not \<^verbatim>\<open>NULL\<close>. The result of the
  pragma is not looked at.
\<close>

definition csqlite_open ::
  "env \<Rightarrow> string option \<Rightarrow> CSQLiteResult option \<Rightarrow> sqlite3 option \<times> CSQLiteResult option" where
  "csqlite_open e path result =
     (if \<not> malloc e (unat sizeof_pointer) then (None, map_option (\<lambda>_. CSQLITE_ERROR) result)
      else
        (case sqlite3_open e path of
           Inl rc \<Rightarrow> (None, map_option (\<lambda>_. CSQLITE_ERROR) result)
         | Inr d \<Rightarrow>
             (case sqlite3_exec e d PRAGMA_foreign_keys of (rc0, d) \<Rightarrow>
                (case sqlite3_exec e d CREATE_TABLES_SQL of (rc, d) \<Rightarrow>
                   if rc \<noteq> SQLITE_OK then (None, map_option (\<lambda>_. CSQLITE_ERROR) result)
                   else (Some d, map_option (\<lambda>_. CSQLITE_OK) result)))))"

text \<open>
  \<^verbatim>\<open>csqlite_store_bundle\<close>, lines 63 to 122. The last equation is the guard of
  line 64. \<^verbatim>\<open>(int)bundle_size\<close> keeps the low 32 bits of the size.
\<close>

fun csqlite_store_bundle ::
  "env \<Rightarrow> sqlite3 option \<Rightarrow> string option \<Rightarrow> byte list option \<Rightarrow> size_t \<Rightarrow>
   CSQLiteBundleMetadata option \<Rightarrow> CSQLiteResult \<times> sqlite3 option" where
  "csqlite_store_bundle e (Some d) (Some bundle_id) (Some bundle_data) bundle_size (Some metadata) =
     (case sqlite3_exec e d BEGIN_TRANSACTION of (rc, d) \<Rightarrow>
        if rc \<noteq> SQLITE_OK then (CSQLITE_ERROR, Some d)
        else
          (case sqlite3_prepare_v2 e d insert_bundle_sql of
             Inl rc \<Rightarrow> (CSQLITE_ERROR, Some (snd (sqlite3_exec e d ROLLBACK)))
           | Inr stmt \<Rightarrow>
               (let stmt = sqlite3_bind_text stmt 1 (Some bundle_id);
                    stmt = sqlite3_bind_blob e stmt 2 (Some bundle_data) (ucast bundle_size)
                in case sqlite3_step e d stmt of (rc, d, stmt) \<Rightarrow>
                  if rc \<noteq> SQLITE_DONE
                  then (if rc = SQLITE_CONSTRAINT then CSQLITE_CONSTRAINT else CSQLITE_ERROR,
                        Some (snd (sqlite3_exec e d ROLLBACK)))
                  else
                    (case sqlite3_prepare_v2 e d insert_metadata_sql of
                       Inl rc \<Rightarrow> (CSQLITE_ERROR, Some (snd (sqlite3_exec e d ROLLBACK)))
                     | Inr stmt \<Rightarrow>
                         (let stmt = sqlite3_bind_text stmt 1 (m_id metadata);
                              stmt = sqlite3_bind_text stmt 2 (m_source metadata);
                              stmt = sqlite3_bind_text stmt 3 (m_destination metadata);
                              stmt = sqlite3_bind_int64 stmt 4 (m_creation_time metadata);
                              stmt = sqlite3_bind_int64 stmt 5 (m_size metadata);
                              stmt = sqlite3_bind_int stmt 6 (m_constraints metadata)
                          in case sqlite3_step e d stmt of (rc, d, stmt) \<Rightarrow>
                            if rc \<noteq> SQLITE_DONE
                            then (CSQLITE_ERROR, Some (snd (sqlite3_exec e d ROLLBACK)))
                            else
                              (case sqlite3_exec e d COMMIT of (rc, d) \<Rightarrow>
                                 (if rc = SQLITE_OK then CSQLITE_OK else CSQLITE_ERROR,
                                  Some d)))))))"
| "csqlite_store_bundle e db bundle_id bundle_data bundle_size metadata = (CSQLITE_ERROR, db)"

text \<open>
  \<^verbatim>\<open>csqlite_get_bundle\<close>, lines 124 to 155. \<open>bundle_data\<close> points to the caller's
  pointer, \<open>bundle_size\<close> to the caller's size; the function returns both cells. When
  \<^verbatim>\<open>malloc\<close> returns \<^verbatim>\<open>NULL\<close> the caller's pointer has been overwritten with it and
  control falls through to line 153 with \<open>rc = SQLITE_ROW\<close>.
\<close>

fun csqlite_get_bundle ::
  "env \<Rightarrow> sqlite3 option \<Rightarrow> string option \<Rightarrow> byte list option option \<Rightarrow> size_t option \<Rightarrow>
   CSQLiteResult \<times> byte list option option \<times> size_t option \<times> sqlite3 option" where
  "csqlite_get_bundle e (Some d) (Some bundle_id) (Some data0) (Some size0) =
     (case sqlite3_prepare_v2 e d select_data_sql of
        Inl rc \<Rightarrow> (CSQLITE_ERROR, Some data0, Some size0, Some d)
      | Inr stmt \<Rightarrow>
          (let stmt = sqlite3_bind_text stmt 1 (Some bundle_id)
           in case sqlite3_step e d stmt of (rc, d, stmt) \<Rightarrow>
             if rc = SQLITE_ROW then
               (let blob = sqlite3_column_blob stmt 0;
                    blob_size = sqlite3_column_bytes stmt 0
                in if malloc e (unat (scast blob_size :: size_t))
                   then (CSQLITE_OK,
                         Some (Some (take (unat (scast blob_size :: size_t)) blob)),
                         Some (scast blob_size), Some d)
                   else (if rc = SQLITE_DONE then CSQLITE_NOT_FOUND else CSQLITE_ERROR,
                         Some None, Some size0, Some d))
             else (if rc = SQLITE_DONE then CSQLITE_NOT_FOUND else CSQLITE_ERROR,
                   Some data0, Some size0, Some d)))"
| "csqlite_get_bundle e db bundle_id bundle_data bundle_size =
     (CSQLITE_ERROR, bundle_data, bundle_size, db)"

text \<open>\<^verbatim>\<open>csqlite_get_metadata\<close>, lines 157 to 187; \<open>metadata\<close> points to the caller's
  record, which is returned.\<close>

fun csqlite_get_metadata ::
  "env \<Rightarrow> sqlite3 option \<Rightarrow> string option \<Rightarrow> CSQLiteBundleMetadata option \<Rightarrow>
   CSQLiteResult \<times> CSQLiteBundleMetadata option \<times> sqlite3 option" where
  "csqlite_get_metadata e (Some d) (Some bundle_id) (Some metadata) =
     (case sqlite3_prepare_v2 e d select_metadata_sql of
        Inl rc \<Rightarrow> (CSQLITE_ERROR, Some metadata, Some d)
      | Inr stmt \<Rightarrow>
          (let stmt = sqlite3_bind_text stmt 1 (Some bundle_id)
           in case sqlite3_step e d stmt of (rc, d, stmt) \<Rightarrow>
             if rc = SQLITE_ROW then
               (CSQLITE_OK,
                Some (metadata\<lparr>m_id := csqlite_strdup e (sqlite3_column_text stmt 0),
                               m_source := csqlite_strdup e (sqlite3_column_text stmt 1),
                               m_destination := csqlite_strdup e (sqlite3_column_text stmt 2),
                               m_creation_time := sqlite3_column_int64 stmt 3,
                               m_size := sqlite3_column_int64 stmt 4,
                               m_constraints := sqlite3_column_int stmt 5\<rparr>),
                Some d)
             else (if rc = SQLITE_DONE then CSQLITE_NOT_FOUND else CSQLITE_ERROR,
                   Some metadata, Some d)))"
| "csqlite_get_metadata e db bundle_id metadata = (CSQLITE_ERROR, metadata, db)"

text \<open>\<^verbatim>\<open>csqlite_update_metadata\<close>, lines 189 to 217.\<close>

fun csqlite_update_metadata ::
  "env \<Rightarrow> sqlite3 option \<Rightarrow> CSQLiteBundleMetadata option \<Rightarrow> CSQLiteResult \<times> sqlite3 option" where
  "csqlite_update_metadata e (Some d) (Some metadata) =
     (if m_id metadata = None then (CSQLITE_ERROR, Some d)
      else
        (case sqlite3_prepare_v2 e d update_sql of
           Inl rc \<Rightarrow> (CSQLITE_ERROR, Some d)
         | Inr stmt \<Rightarrow>
             (let stmt = sqlite3_bind_text stmt 1 (m_source metadata);
                  stmt = sqlite3_bind_text stmt 2 (m_destination metadata);
                  stmt = sqlite3_bind_int64 stmt 3 (m_creation_time metadata);
                  stmt = sqlite3_bind_int64 stmt 4 (m_size metadata);
                  stmt = sqlite3_bind_int stmt 5 (m_constraints metadata);
                  stmt = sqlite3_bind_text stmt 6 (m_id metadata)
              in case sqlite3_step e d stmt of (rc, d, stmt) \<Rightarrow>
                if rc \<noteq> SQLITE_DONE then (CSQLITE_ERROR, Some d)
                else (if sqlite3_changes d > 0 then CSQLITE_OK else CSQLITE_NOT_FOUND,
                      Some d))))"
| "csqlite_update_metadata e db metadata = (CSQLITE_ERROR, db)"

text \<open>\<^verbatim>\<open>csqlite_remove_bundle\<close>, lines 219 to 241.\<close>

fun csqlite_remove_bundle ::
  "env \<Rightarrow> sqlite3 option \<Rightarrow> string option \<Rightarrow> CSQLiteResult \<times> sqlite3 option" where
  "csqlite_remove_bundle e (Some d) (Some bundle_id) =
     (case sqlite3_prepare_v2 e d delete_sql of
        Inl rc \<Rightarrow> (CSQLITE_ERROR, Some d)
      | Inr stmt \<Rightarrow>
          (let stmt = sqlite3_bind_text stmt 1 (Some bundle_id)
           in case sqlite3_step e d stmt of (rc, d, stmt) \<Rightarrow>
             if rc \<noteq> SQLITE_DONE then (CSQLITE_ERROR, Some d)
             else (if sqlite3_changes d > 0 then CSQLITE_OK else CSQLITE_NOT_FOUND,
                   Some d)))"
| "csqlite_remove_bundle e db bundle_id = (CSQLITE_ERROR, db)"

text \<open>\<^verbatim>\<open>csqlite_has_bundle\<close>, lines 243 to 263; \<open>exists\<close> points to the caller's
  flag.\<close>

fun csqlite_has_bundle ::
  "env \<Rightarrow> sqlite3 option \<Rightarrow> string option \<Rightarrow> bool option \<Rightarrow>
   CSQLiteResult \<times> bool option \<times> sqlite3 option" where
  "csqlite_has_bundle e (Some d) (Some bundle_id) (Some exists0) =
     (case sqlite3_prepare_v2 e d select_1_sql of
        Inl rc \<Rightarrow> (CSQLITE_ERROR, Some exists0, Some d)
      | Inr stmt \<Rightarrow>
          (let stmt = sqlite3_bind_text stmt 1 (Some bundle_id)
           in case sqlite3_step e d stmt of (rc, d, stmt) \<Rightarrow>
             (CSQLITE_OK, Some (rc = SQLITE_ROW), Some d)))"
| "csqlite_has_bundle e db bundle_id exists = (CSQLITE_ERROR, exists, db)"

text \<open>\<^verbatim>\<open>csqlite_count_bundles\<close>, lines 265 to 287.\<close>

fun csqlite_count_bundles :: "env \<Rightarrow> sqlite3 option \<Rightarrow> uint64_t \<times> sqlite3 option" where
  "csqlite_count_bundles e (Some d) =
     (case sqlite3_prepare_v2 e d select_count_sql of
        Inl rc \<Rightarrow> (0, Some d)
      | Inr stmt \<Rightarrow>
          (case sqlite3_step e d stmt of (rc, d, stmt) \<Rightarrow>
             (let count = (if rc = SQLITE_ROW then sqlite3_column_int64 stmt 0 else 0)
              in (count, Some d))))"
| "csqlite_count_bundles e None = (0, None)"

text \<open>
  The counting loop of lines 303 to 306 and 350 to 353:
  \<^verbatim>\<open>while (sqlite3_step(stmt) == SQLITE_ROW) { n++; }\<close>
\<close>

function count_rows ::
  "env \<Rightarrow> sqlite3 \<Rightarrow> sqlite3_stmt \<Rightarrow> size_t \<Rightarrow> size_t \<times> sqlite3 \<times> sqlite3_stmt" where
  "count_rows e d stmt n =
     (case sqlite3_step e d stmt of (rc, d', stmt') \<Rightarrow>
        if rc = SQLITE_ROW
        then count_rows e d' stmt' (n + 1)
        else (n, d', stmt'))"
  by pat_completeness auto
termination
proof (relation "measure (\<lambda>(e, d, stmt, n).
         length (result_set d (stmt_sql stmt) (param stmt)) - pos stmt)")
  show "wf (measure (\<lambda>(e, d, stmt, n).
         length (result_set d (stmt_sql stmt) (param stmt)) - pos stmt))"
    by simp
next
  fix e d stmt x rc d' stmt' and n :: size_t
  assume "(rc, x) = sqlite3_step e d stmt" "(d', stmt') = x" "rc = SQLITE_ROW"
  then have s: "sqlite3_step e d stmt = (SQLITE_ROW, d', stmt')"
    by simp
  have nr: "fst (execute d q p) \<noteq> SQLITE_ROW" for q p
    by (cases q) (auto split: option.splits)
  from s nr [of "stmt_sql stmt" "param stmt"]
  have "d' = d \<and> stmt_sql stmt' = stmt_sql stmt \<and> param stmt' = param stmt
      \<and> pos stmt' = Suc (pos stmt)
      \<and> pos stmt < length (result_set d (stmt_sql stmt) (param stmt))"
    by (cases "step_fault e (stmt_sql stmt)"; cases "the (step_fault e (stmt_sql stmt))")
       (auto simp: sqlite3_step_def Let_def split: if_splits prod.splits)
  then show "((e, d', stmt', n + 1), e, d, stmt, n)
       \<in> measure (\<lambda>(e, d, stmt, n).
           length (result_set d (stmt_sql stmt) (param stmt)) - pos stmt)"
    by auto
qed

declare count_rows.simps [simp del]

text \<open>
  The fetching loop of lines 324 to 329. The array is the list of the entries written
  so far: \<^verbatim>\<open>(*ids)[i] = ...\<close> appends at index \<open>i\<close>.
\<close>

function fetch_ids ::
  "env \<Rightarrow> sqlite3 \<Rightarrow> sqlite3_stmt \<Rightarrow> size_t \<Rightarrow> size_t \<Rightarrow> string option list \<Rightarrow>
   size_t \<times> string option list \<times> sqlite3 \<times> sqlite3_stmt" where
  "fetch_ids e d stmt i n ids =
     (case sqlite3_step e d stmt of (rc, d', stmt') \<Rightarrow>
        if rc = SQLITE_ROW \<and> i < n
        then fetch_ids e d' stmt' (i + 1) n
               (ids @ [csqlite_strdup e (sqlite3_column_text stmt' 0)])
        else (i, ids, d', stmt'))"
  by pat_completeness auto
termination
proof (relation "measure (\<lambda>(e, d, stmt, i, n, ids).
         length (result_set d (stmt_sql stmt) (param stmt)) - pos stmt)")
  show "wf (measure (\<lambda>(e, d, stmt, i, n, ids).
         length (result_set d (stmt_sql stmt) (param stmt)) - pos stmt))"
    by simp
next
  fix e d stmt ids x rc d' stmt' and i n :: size_t
  assume "(rc, x) = sqlite3_step e d stmt" "(d', stmt') = x" "rc = SQLITE_ROW \<and> i < n"
  then have s: "sqlite3_step e d stmt = (SQLITE_ROW, d', stmt')"
    by simp
  have nr: "fst (execute d q p) \<noteq> SQLITE_ROW" for q p
    by (cases q) (auto split: option.splits)
  from s nr [of "stmt_sql stmt" "param stmt"]
  have "d' = d \<and> stmt_sql stmt' = stmt_sql stmt \<and> param stmt' = param stmt
      \<and> pos stmt' = Suc (pos stmt)
      \<and> pos stmt < length (result_set d (stmt_sql stmt) (param stmt))"
    by (cases "step_fault e (stmt_sql stmt)"; cases "the (step_fault e (stmt_sql stmt))")
       (auto simp: sqlite3_step_def Let_def split: if_splits prod.splits)
  then show "((e, d', stmt', i + 1, n, ids @ [csqlite_strdup e (sqlite3_column_text stmt' 0)]), e, d, stmt, i, n, ids)
       \<in> measure (\<lambda>(e, d, stmt, i, n, ids).
           length (result_set d (stmt_sql stmt) (param stmt)) - pos stmt)"
    by auto
qed

declare fetch_ids.simps [simp del]

text \<open>The fetching loop of lines 371 to 380, on an array of records.\<close>

definition fetch_record :: "env \<Rightarrow> sqlite3_stmt \<Rightarrow> CSQLiteBundleMetadata" where
  "fetch_record e stmt =
     \<lparr>m_id = csqlite_strdup e (sqlite3_column_text stmt 0),
      m_source = csqlite_strdup e (sqlite3_column_text stmt 1),
      m_destination = csqlite_strdup e (sqlite3_column_text stmt 2),
      m_creation_time = sqlite3_column_int64 stmt 3,
      m_size = sqlite3_column_int64 stmt 4,
      m_constraints = sqlite3_column_int stmt 5\<rparr>"

function fetch_metadata ::
  "env \<Rightarrow> sqlite3 \<Rightarrow> sqlite3_stmt \<Rightarrow> size_t \<Rightarrow> size_t \<Rightarrow> CSQLiteBundleMetadata list \<Rightarrow>
   size_t \<times> CSQLiteBundleMetadata list \<times> sqlite3 \<times> sqlite3_stmt" where
  "fetch_metadata e d stmt i n ms =
     (case sqlite3_step e d stmt of (rc, d', stmt') \<Rightarrow>
        if rc = SQLITE_ROW \<and> i < n
        then fetch_metadata e d' stmt' (i + 1) n (ms @ [fetch_record e stmt'])
        else (i, ms, d', stmt'))"
  by pat_completeness auto
termination
proof (relation "measure (\<lambda>(e, d, stmt, i, n, ms).
         length (result_set d (stmt_sql stmt) (param stmt)) - pos stmt)")
  show "wf (measure (\<lambda>(e, d, stmt, i, n, ms).
         length (result_set d (stmt_sql stmt) (param stmt)) - pos stmt))"
    by simp
next
  fix e d stmt ms x rc d' stmt' and i n :: size_t
  assume "(rc, x) = sqlite3_step e d stmt" "(d', stmt') = x" "rc = SQLITE_ROW \<and> i < n"
  then have s: "sqlite3_step e d stmt = (SQLITE_ROW, d', stmt')"
    by simp
  have nr: "fst (execute d q p) \<noteq> SQLITE_ROW" for q p
    by (cases q) (auto split: option.splits)
  from s nr [of "stmt_sql stmt" "param stmt"]
  have "d' = d \<and> stmt_sql stmt' = stmt_sql stmt \<and> param stmt' = param stmt
      \<and> pos stmt' = Suc (pos stmt)
      \<and> pos stmt < length (result_set d (stmt_sql stmt) (param stmt))"
    by (cases "step_fault e (stmt_sql stmt)"; cases "the (step_fault e (stmt_sql stmt))")
       (auto simp: sqlite3_step_def Let_def split: if_splits prod.splits)
  then show "((e, d', stmt', i + 1, n, ms @ [fetch_record e stmt']), e, d, stmt, i, n, ms)
       \<in> measure (\<lambda>(e, d, stmt, i, n, ms).
           length (result_set d (stmt_sql stmt) (param stmt)) - pos stmt)"
    by auto
qed

declare fetch_metadata.simps [simp del]

text \<open>
  \<^verbatim>\<open>csqlite_get_all_ids\<close>, lines 289 to 334. \<open>ids\<close> points to the caller's array
  pointer and \<open>count\<close> to the caller's counter; both cells are returned.
\<close>

fun csqlite_get_all_ids ::
  "env \<Rightarrow> sqlite3 option \<Rightarrow> string option list option option \<Rightarrow> size_t option \<Rightarrow>
   CSQLiteResult \<times> string option list option option \<times> size_t option \<times> sqlite3 option" where
  "csqlite_get_all_ids e (Some d) (Some ids0) (Some count0) =
     (case sqlite3_prepare_v2 e d select_ids_sql of
        Inl rc \<Rightarrow> (CSQLITE_ERROR, Some ids0, Some count0, Some d)
      | Inr stmt \<Rightarrow>
          (case count_rows e d stmt 0 of (n, d, stmt) \<Rightarrow>
             if n = 0 then (CSQLITE_OK, Some None, Some 0, Some d)
             else if \<not> malloc e (unat (n * sizeof_pointer))
             then (CSQLITE_ERROR, Some None, Some count0, Some d)
             else
               (let stmt = sqlite3_reset stmt
                in case fetch_ids e d stmt 0 n [] of (i, ids, d, stmt) \<Rightarrow>
                  (CSQLITE_OK, Some (Some ids), Some i, Some d))))"
| "csqlite_get_all_ids e db ids count = (CSQLITE_ERROR, ids, count, db)"

text \<open>\<^verbatim>\<open>csqlite_get_all_metadata\<close>, lines 336 to 385.\<close>

fun csqlite_get_all_metadata ::
  "env \<Rightarrow> sqlite3 option \<Rightarrow> CSQLiteBundleMetadata list option option \<Rightarrow> size_t option \<Rightarrow>
   CSQLiteResult \<times> CSQLiteBundleMetadata list option option \<times> size_t option \<times> sqlite3 option" where
  "csqlite_get_all_metadata e (Some d) (Some metadata0) (Some count0) =
     (case sqlite3_prepare_v2 e d select_all_metadata_sql of
        Inl rc \<Rightarrow> (CSQLITE_ERROR, Some metadata0, Some count0, Some d)
      | Inr stmt \<Rightarrow>
          (case count_rows e d stmt 0 of (n, d, stmt) \<Rightarrow>
             if n = 0 then (CSQLITE_OK, Some None, Some 0, Some d)
             else if \<not> malloc e (unat (n * sizeof_CSQLiteBundleMetadata))
             then (CSQLITE_ERROR, Some None, Some count0, Some d)
             else
               (let stmt = sqlite3_reset stmt
                in case fetch_metadata e d stmt 0 n [] of (i, ms, d, stmt) \<Rightarrow>
                  (CSQLITE_OK, Some (Some ms), Some i, Some d))))"
| "csqlite_get_all_metadata e db metadata count = (CSQLITE_ERROR, metadata, count, db)"

subsection \<open>A backend without faults\<close>

text \<open>The environment of the scenarios: every call of the backend and every
  allocation succeeds, the database file is new, and the library is built with
  argument checks.\<close>

definition healthy :: env where
  "healthy = \<lparr>prepare_fault = (\<lambda>q. None), step_fault = (\<lambda>q. None), open_fault = None,
              malloc = (\<lambda>n. True), disk = (\<lambda>path. ([], [])),
              bind_negative = (\<lambda>bytes. NULL)\<rparr>"

text \<open>The backend compiles and runs the statement \<open>q\<close>.\<close>

definition runs :: "env \<Rightarrow> sql \<Rightarrow> bool" where
  "runs e q \<longleftrightarrow> prepare_fault e q = None \<and> step_fault e q = None"

subsection \<open>The rows a store writes\<close>

text \<open>The value that \<^verbatim>\<open>sqlite3_bind_text\<close> binds for a C string.\<close>

definition text_val :: "string option \<Rightarrow> val" where
  "text_val s = (case s of None \<Rightarrow> NULL | Some str \<Rightarrow> TEXT str)"

text \<open>The value that line 86 binds for a buffer \<open>p\<close> and a size \<open>n\<close>.\<close>

definition blob_val :: "env \<Rightarrow> byte list \<Rightarrow> size_t \<Rightarrow> val" where
  "blob_val e p n =
     (if sint (ucast n :: c_int) < 0 then bind_negative e p
      else BLOB (take (nat (sint (ucast n :: c_int))) p))"

definition stored_bundle :: "env \<Rightarrow> string \<Rightarrow> byte list \<Rightarrow> size_t \<Rightarrow> bundle_row" where
  "stored_bundle e i p n = \<lparr>b_id = TEXT i, b_data = blob_val e p n\<rparr>"

definition stored_metadata :: "CSQLiteBundleMetadata \<Rightarrow> metadata_row" where
  "stored_metadata m =
     \<lparr>r_id = text_val (m_id m), r_source = text_val (m_source m),
      r_destination = text_val (m_destination m),
      r_creation_time = INTEGER (m_creation_time m), r_size = INTEGER (m_size m),
      r_constraints = INTEGER (scast (m_constraints m))\<rparr>"

text \<open>A row with the id \<open>i\<close> exists in \<^verbatim>\<open>bundles\<close>, in \<^verbatim>\<open>bundle_metadata\<close>.\<close>

definition bundle_exists :: "sqlite3 \<Rightarrow> string \<Rightarrow> bool" where
  "bundle_exists d i \<longleftrightarrow> list_ex (\<lambda>r. b_id r = TEXT i) (bundles d)"

definition metadata_exists :: "sqlite3 \<Rightarrow> string \<Rightarrow> bool" where
  "metadata_exists d i \<longleftrightarrow> list_ex (\<lambda>r. r_id r = TEXT i) (bundle_metadata d)"

subsection \<open>The scenario of the specification\<close>

text \<open>The record, the stored row and the store of the concrete scenario: a new
  database, then bundle \<open>b1\<close> with the bytes 1, 2, 3; and a second record for the
  same bundle.\<close>

definition scenario_metadata :: CSQLiteBundleMetadata where
  "scenario_metadata =
     \<lparr>m_id = Some ''b1'', m_source = Some ''A'', m_destination = Some ''B'',
      m_creation_time = 1000, m_size = 3, m_constraints = 0\<rparr>"

definition scenario_row :: metadata_row where
  "scenario_row =
     \<lparr>r_id = TEXT ''b1'', r_source = TEXT ''A'', r_destination = TEXT ''B'',
      r_creation_time = INTEGER 1000, r_size = INTEGER 3, r_constraints = INTEGER 0\<rparr>"

definition new_store :: "sqlite3 option" where
  "new_store = fst (csqlite_open healthy (Some '':memory:'') None)"

definition scenario_store :: sqlite3 where
  "scenario_store =
     \<lparr>bundles = [\<lparr>b_id = TEXT ''b1'', b_data = BLOB [1, 2, 3]\<rparr>],
      bundle_metadata = [scenario_row],
      foreign_keys = True, journal = None, changes = 1\<rparr>"



text \<open>A store with the bundles \<open>b\<close> and \<open>a\<close>, stored in this order.\<close>

definition listing_store :: sqlite3 where
  "listing_store =
     \<lparr>bundles = [\<lparr>b_id = TEXT ''b'', b_data = BLOB [1]\<rparr>,
                 \<lparr>b_id = TEXT ''a'', b_data = BLOB [2]\<rparr>],
      bundle_metadata = [scenario_row\<lparr>r_id := TEXT ''b''\<rparr>, scenario_row\<lparr>r_id := TEXT ''a''\<rparr>],
      foreign_keys = True, journal = None, changes = 1\<rparr>"

subsection \<open>Sequences of calls\<close>

text \<open>
  The referential invariant of the schema, on the rows as they are: every bundle has a
  metadata row with its id, and every metadata row has a bundle with its id (a metadata
  row whose id is \<open>NULL\<close> has none).
\<close>

definition referential :: "sqlite3 \<Rightarrow> bool" where
  "referential d \<longleftrightarrow>
     list_all (\<lambda>b. list_ex (\<lambda>m. r_id m = b_id b) (bundle_metadata d)) (bundles d)
     \<and> list_all (\<lambda>m. list_ex (\<lambda>b. b_id b = r_id m) (bundles d)) (bundle_metadata d)"

text \<open>The calls that write, and a sequence of them, each call in its own environment.
  The queries return the connection as it was (\<open>queries_read_only\<close> below).\<close>

datatype call =
    Store "string option" "byte list option" size_t "CSQLiteBundleMetadata option"
  | Update "CSQLiteBundleMetadata option"
  | Remove "string option"

fun perform :: "env \<Rightarrow> call \<Rightarrow> sqlite3 option \<Rightarrow> sqlite3 option" where
  "perform e (Store bundle_id bundle_data bundle_size metadata) db =
     snd (csqlite_store_bundle e db bundle_id bundle_data bundle_size metadata)"
| "perform e (Update metadata) db = snd (csqlite_update_metadata e db metadata)"
| "perform e (Remove bundle_id) db = snd (csqlite_remove_bundle e db bundle_id)"

fun run :: "(env \<times> call) list \<Rightarrow> sqlite3 option \<Rightarrow> sqlite3 option" where
  "run [] db = db"
| "run ((e, c) # cs) db = run cs (perform e c db)"

text \<open>A store that passes a metadata record passes one whose id is not \<^verbatim>\<open>NULL\<close>.\<close>

fun names_metadata :: "call \<Rightarrow> bool" where
  "names_metadata (Store bundle_id bundle_data bundle_size (Some m)) \<longleftrightarrow> m_id m \<noteq> None"
| "names_metadata c \<longleftrightarrow> True"

section \<open>Properties of the model\<close>

subsection \<open>Evaluation of the interface and of the casts\<close>

lemmas sqlite3_api =
  sqlite3_prepare_v2_def sqlite3_step_def sqlite3_exec_def sqlite3_bind_text_def
  sqlite3_bind_blob_def sqlite3_bind_int64_def sqlite3_bind_int_def sqlite3_changes_def
  sqlite3_reset_def column_def sqlite3_column_text_def sqlite3_column_blob_def
  sqlite3_column_bytes_def sqlite3_column_int64_def sqlite3_column_int_def

lemma rc_of_fault_simps [simp]:
  "rc_of_fault f \<noteq> SQLITE_ROW" "rc_of_fault f \<noteq> SQLITE_DONE" "rc_of_fault f \<noteq> SQLITE_OK"
  "rc_of_fault f \<noteq> SQLITE_CONSTRAINT"
  by (cases f; simp)+

lemma sql_eq_simps [simp]:
  "sql_eq a (TEXT s) \<longleftrightarrow> a = TEXT s" "\<not> sql_eq NULL b" "\<not> sql_eq a NULL"
  by (auto simp: sql_eq_def)

lemma signed_take_bit_31_nat: "k < 2147483648 \<Longrightarrow> signed_take_bit 31 (int k) = int k"
proof -
  assume a: "k < 2147483648"
  have b: "int k < 2 ^ 31" using a by simp
  have "(0::int) \<le> int k" by simp
  then have c: "- (2 ^ 31) \<le> int k" by (rule order_trans [rotated]) simp
  show ?thesis by (rule signed_take_bit_int_eq_self [OF c b])
qed

lemma sint_int_of_size:
  "unat (n :: size_t) < 2147483648 \<Longrightarrow> sint (ucast n :: c_int) = int (unat n)"
proof -
  assume a: "unat n < 2147483648"
  have "sint (ucast n :: c_int) = signed_take_bit 31 (uint n)"
    by (simp only: signed_ucast_eq) simp
  also have "\<dots> = signed_take_bit 31 (int (unat n))"
    by (simp only: uint_nat)
  also have "\<dots> = int (unat n)"
    by (rule signed_take_bit_31_nat [OF a])
  finally show ?thesis .
qed

lemma size_of_int_of_nat:
  "k < 2147483648 \<Longrightarrow> (scast (of_nat k :: c_int) :: size_t) = of_nat k"
proof -
  assume a: "k < 2147483648"
  have "sint (of_nat k :: c_int) = signed_take_bit 31 (int k)"
    by (simp add: signed_of_nat)
  also have "\<dots> = int k"
    by (rule signed_take_bit_31_nat [OF a])
  finally have s: "sint (of_nat k :: c_int) = int k" .
  have "(scast (of_nat k :: c_int) :: size_t) = word_of_int (sint (of_nat k :: c_int))"
    by (simp only: scast_eq)
  also have "\<dots> = of_nat k"
    by (simp only: s word_of_int_nat) simp
  finally show ?thesis .
qed

lemma unat_size_of_nat: "k < 2147483648 \<Longrightarrow> unat (of_nat k :: size_t) = k"
  by (rule of_nat_inverse [OF refl]) simp

lemma int_of_sign_extended: "ucast (scast (c :: c_int) :: 64 word) = c"
  by (rule bit_word_eqI) (auto simp: bit_simps)

lemma blob_val_small:
  "unat n \<le> length p \<Longrightarrow> unat n < 2147483648 \<Longrightarrow> blob_val e p n = BLOB (take (unat n) p)"
  by (simp add: blob_val_def sint_int_of_size)

lemma filter_absent: "\<not> list_ex P xs \<Longrightarrow> filter P xs = []"
  by (simp add: list_ex_iff filter_empty_conv)

lemma runs_healthy [simp]: "runs healthy q"
  by (simp add: runs_def healthy_def)


lemma new_store_eq:
  "new_store = Some \<lparr>bundles = [], bundle_metadata = [], foreign_keys = True, journal = None, changes = 0\<rparr>"
  by (simp add: new_store_def csqlite_open_def healthy_def sqlite3_open_def sqlite3_api sizeof_pointer_def)


text \<open>The scenario of the specification, step by step: the store returns Ok, the read
  returns the three bytes and the size 3, the count is 1, the removal returns Ok, and
  the count is 0.\<close>

lemma scenario:
  "csqlite_store_bundle healthy new_store (Some ''b1'') (Some [1, 2, 3]) 3 (Some scenario_metadata)
     = (CSQLITE_OK, Some scenario_store)
   \<and> csqlite_get_bundle healthy (Some scenario_store) (Some ''b1'') (Some None) (Some 0)
     = (CSQLITE_OK, Some (Some [1, 2, 3]), Some 3, Some scenario_store)
   \<and> csqlite_count_bundles healthy (Some scenario_store) = (1, Some scenario_store)
   \<and> csqlite_remove_bundle healthy (Some scenario_store) (Some ''b1'')
     = (CSQLITE_OK, Some (scenario_store\<lparr>bundles := [], bundle_metadata := []\<rparr>))
   \<and> csqlite_count_bundles healthy (Some (scenario_store\<lparr>bundles := [], bundle_metadata := []\<rparr>))
     = (0, Some (scenario_store\<lparr>bundles := [], bundle_metadata := []\<rparr>))"
  by (simp add: new_store_eq healthy_def sqlite3_api scenario_metadata_def scenario_row_def
        scenario_store_def Let_def)

text \<open>The listing of the ids follows the index of the primary key: \<open>a\<close> before \<open>b\<close>,
  whichever was stored first.\<close>

lemma listing_ids: "result_set listing_store select_ids_sql p = [[TEXT ''a''], [TEXT ''b'']]"
  by (simp add: listing_store_def id_key_def)

lemma get_all_ids_in_id_order:
  "csqlite_get_all_ids healthy (Some listing_store) (Some None) (Some 0)
   = (CSQLITE_OK, Some (Some [Some ''a'', Some ''b'']), Some 2, Some listing_store)"
  apply (simp add: sqlite3_prepare_v2_def healthy_def)
  apply (subst count_rows.simps, simp del: result_set.simps add: sqlite3_step_def listing_ids)
  apply (subst count_rows.simps, simp del: result_set.simps add: sqlite3_step_def listing_ids)
  apply (subst count_rows.simps,
      simp del: result_set.simps add: sqlite3_step_def listing_ids sizeof_pointer_def
        sqlite3_reset_def)
  apply (subst fetch_ids.simps,
      simp del: result_set.simps add: sqlite3_step_def listing_ids sqlite3_column_text_def
        column_def csqlite_strdup_def)
  apply (subst fetch_ids.simps,
      simp del: result_set.simps add: sqlite3_step_def listing_ids sqlite3_column_text_def
        column_def csqlite_strdup_def)
  apply (subst fetch_ids.simps,
      simp del: result_set.simps add: sqlite3_step_def listing_ids sqlite3_column_text_def
        column_def csqlite_strdup_def)
  done

subsection \<open>What a successful store has written, and what a read returns\<close>

lemma store_bundle_OkD:
  assumes "csqlite_store_bundle e db bundle_id bundle_data n metadata = (CSQLITE_OK, db')"
  shows "\<exists>d i p m. db = Some d \<and> bundle_id = Some i \<and> bundle_data = Some p \<and> metadata = Some m
     \<and> journal d = None
     \<and> \<not> bundle_exists d i
     \<and> blob_val e p n \<noteq> NULL
     \<and> m_source m \<noteq> None \<and> m_destination m \<noteq> None
     \<and> \<not> list_ex (\<lambda>r. r_id r \<noteq> NULL \<and> r_id r = text_val (m_id m)) (bundle_metadata d)
     \<and> db' = Some (d\<lparr>bundles := bundles d @ [stored_bundle e i p n],
                      bundle_metadata := bundle_metadata d @ [stored_metadata m],
                      changes := 1\<rparr>)"
proof -
  from assms obtain d i p m
    where a: "db = Some d" "bundle_id = Some i" "bundle_data = Some p" "metadata = Some m"
    by (cases db; cases bundle_id; cases bundle_data; cases metadata) auto
  show ?thesis
    using assms unfolding a
    by (auto simp: sqlite3_api Let_def text_val_def blob_val_def stored_bundle_def
          stored_metadata_def bundle_exists_def list_ex_iff
        split: option.splits if_splits prod.splits sum.splits)
qed

lemma get_bundle_of_row:
  assumes "runs e select_data_sql"
    and "filter (\<lambda>r. sql_eq (b_id r) (TEXT i)) (bundles d) = \<lparr>b_id = TEXT i, b_data = BLOB p\<rparr> # rest"
    and "length p < 2147483648" and "malloc e (length p)"
  shows "csqlite_get_bundle e (Some d) (Some i) (Some x) (Some y)
         = (CSQLITE_OK, Some (Some p), Some (of_nat (length p)), Some d)"
  using assms
  by (simp add: sqlite3_api runs_def Let_def size_of_int_of_nat unat_size_of_nat)



lemma get_metadata_of_row:
  assumes "runs e select_metadata_sql"
    and "filter (\<lambda>r. r_id r = TEXT i) (bundle_metadata d) = stored_metadata m # rest"
    and "m_id m = Some i" "m_source m = Some s" "m_destination m = Some t"
    and "malloc e (length i + 1)" "malloc e (length s + 1)" "malloc e (length t + 1)"
  shows "csqlite_get_metadata e (Some d) (Some i) (Some m0) = (CSQLITE_OK, Some m, Some d)"
  using assms
  by (simp add: sqlite3_api runs_def Let_def metadata_columns_def stored_metadata_def
        text_val_def csqlite_strdup_def int_of_sign_extended)






text \<open>
  A second store under an id that a first store wrote returns Constraint, for every
  first payload and record and every second payload and record: the insert into
  \<^verbatim>\<open>bundles\<close> is rejected and the transaction is rolled back. The connection is as
  it was but for the counter of \<^verbatim>\<open>sqlite3_changes\<close>, which the rejected insert has
  set to 0.
\<close>

lemma duplicate_store_rolled_back:
  assumes first: "csqlite_store_bundle e db (Some i) p1 n1 m1 = (CSQLITE_OK, Some d1)"
    and run: "runs e' BEGIN_TRANSACTION" "runs e' insert_bundle_sql" "runs e' ROLLBACK"
  shows "csqlite_store_bundle e' (Some d1) (Some i) (Some p2) n2 (Some m2)
         = (CSQLITE_CONSTRAINT, Some (d1\<lparr>changes := 0\<rparr>))"
proof -
  from store_bundle_OkD [OF first] obtain d p m where
    d: "journal d = None"
       "d1 = d\<lparr>bundles := bundles d @ [stored_bundle e i p n1],
                bundle_metadata := bundle_metadata d @ [stored_metadata m],
                changes := 1\<rparr>"
    by auto
  show ?thesis
    unfolding d(2) using run d(1)
    by (simp add: sqlite3_api runs_def Let_def stored_bundle_def)
qed

text \<open>
  Where the first store kept what it was given, a payload shorter than 2147483648
  bytes and a record whose id is the bundle id, the re-reads after the rejected second
  store return the first payload with its size and the first record.
\<close>

lemma duplicate_store_keeps_first:
  assumes first: "csqlite_store_bundle e db (Some i) (Some p1) n1
                    (Some \<lparr>m_id = Some i, m_source = Some s, m_destination = Some t,
                           m_creation_time = ct, m_size = sz, m_constraints = c\<rparr>)
                  = (CSQLITE_OK, Some d1)"
    and size: "unat n1 = length p1" "length p1 < 2147483648"
    and run: "runs e' BEGIN_TRANSACTION" "runs e' insert_bundle_sql" "runs e' ROLLBACK"
             "runs e' select_data_sql" "runs e' select_metadata_sql"
    and al: "malloc e' (length p1)" "malloc e' (length i + 1)" "malloc e' (length s + 1)"
            "malloc e' (length t + 1)"
  shows "\<exists>d2. csqlite_store_bundle e' (Some d1) (Some i) (Some p2) n2 (Some m2)
              = (CSQLITE_CONSTRAINT, Some d2)
       \<and> bundles d2 = bundles d1 \<and> bundle_metadata d2 = bundle_metadata d1
       \<and> foreign_keys d2 = foreign_keys d1 \<and> journal d2 = journal d1
       \<and> csqlite_get_bundle e' (Some d2) (Some i) (Some x) (Some y)
         = (CSQLITE_OK, Some (Some p1), Some n1, Some d2)
       \<and> csqlite_get_metadata e' (Some d2) (Some i) (Some m0)
         = (CSQLITE_OK,
            Some \<lparr>m_id = Some i, m_source = Some s, m_destination = Some t,
                  m_creation_time = ct, m_size = sz, m_constraints = c\<rparr>,
            Some d2)"
proof -
  let ?m1 = "\<lparr>m_id = Some i, m_source = Some s, m_destination = Some t,
              m_creation_time = ct, m_size = sz, m_constraints = c\<rparr>"
  from store_bundle_OkD [OF first] obtain d where
    d: "\<not> bundle_exists d i"
       "\<not> list_ex (\<lambda>r. r_id r \<noteq> NULL \<and> r_id r = text_val (m_id ?m1)) (bundle_metadata d)"
       "d1 = d\<lparr>bundles := bundles d @ [stored_bundle e i p1 n1],
                bundle_metadata := bundle_metadata d @ [stored_metadata ?m1],
                changes := 1\<rparr>"
    by auto
  let ?d2 = "d1\<lparr>changes := 0\<rparr>"
  have a: "csqlite_store_bundle e' (Some d1) (Some i) (Some p2) n2 (Some m2)
           = (CSQLITE_CONSTRAINT, Some ?d2)"
    by (rule duplicate_store_rolled_back [OF first run(1-3)])
  have n: "unat n1 \<le> length p1" "unat n1 < 2147483648"
    using size by simp_all
  have "filter (\<lambda>r. sql_eq (b_id r) (TEXT i)) (bundles ?d2)
        = \<lparr>b_id = TEXT i, b_data = BLOB p1\<rparr> # []"
    using d(1) unfolding d(3)
    by (simp add: bundle_exists_def filter_absent stored_bundle_def
        blob_val_small [OF n] size)
  from get_bundle_of_row [OF run(4) this size(2) al(1), of x y]
  have b: "csqlite_get_bundle e' (Some ?d2) (Some i) (Some x) (Some y)
         = (CSQLITE_OK, Some (Some p1), Some n1, Some ?d2)"
    by (simp add: size(1) [symmetric])
  have "filter (\<lambda>r. r_id r = TEXT i) (bundle_metadata d) = []"
    using d(2) by (auto simp: text_val_def list_ex_iff filter_empty_conv)
  then have f: "filter (\<lambda>r. r_id r = TEXT i) (bundle_metadata ?d2) = stored_metadata ?m1 # []"
    unfolding d(3) by (simp add: stored_metadata_def text_val_def)
  have c: "csqlite_get_metadata e' (Some ?d2) (Some i) (Some m0)
           = (CSQLITE_OK, Some ?m1, Some ?d2)"
    by (rule get_metadata_of_row [OF run(5) f _ _ _ al(2-4)]) simp_all
  have k: "bundles ?d2 = bundles d1" "bundle_metadata ?d2 = bundle_metadata d1"
    "foreign_keys ?d2 = foreign_keys d1" "journal ?d2 = journal d1"
    by simp_all
  from a b c k show ?thesis by blast
qed

subsection \<open>The queries return the connection unchanged\<close>

lemma step_select_db:
  assumes "is_select (stmt_sql stmt)"
  shows "fst (snd (sqlite3_step e d stmt)) = d"
    and "stmt_sql (snd (snd (sqlite3_step e d stmt))) = stmt_sql stmt"
  using assms by (auto simp: sqlite3_step_def Let_def split: option.splits)

lemma count_rows_db:
  "is_select (stmt_sql stmt) \<Longrightarrow> fst (snd (count_rows e d stmt n)) = d
     \<and> stmt_sql (snd (snd (count_rows e d stmt n))) = stmt_sql stmt"
proof (induction e d stmt n rule: count_rows.induct)
  case (1 e d stmt n)
  obtain rc d' stmt' where s: "sqlite3_step e d stmt = (rc, d', stmt')"
    by (cases "sqlite3_step e d stmt") auto
  from step_select_db [OF "1.prems", of e d] s
  have eq: "d' = d" "stmt_sql stmt' = stmt_sql stmt" by auto
  show ?case
  proof (cases "rc = SQLITE_ROW")
    case True
    with "1.IH" [of rc "(d', stmt')" d' stmt'] s eq "1.prems"
    show ?thesis by (subst (1 2) count_rows.simps) (simp add: s)
  next
    case False
    with s eq show ?thesis by (subst (1 2) count_rows.simps) simp
  qed
qed

lemma fetch_ids_db:
  "is_select (stmt_sql stmt) \<Longrightarrow> fst (snd (snd (fetch_ids e d stmt i n ids))) = d"
proof (induction e d stmt i n ids rule: fetch_ids.induct)
  case (1 e d stmt i n ids)
  obtain rc d' stmt' where s: "sqlite3_step e d stmt = (rc, d', stmt')"
    by (cases "sqlite3_step e d stmt") auto
  from step_select_db [OF "1.prems", of e d] s
  have eq: "d' = d" "stmt_sql stmt' = stmt_sql stmt" by auto
  show ?case
  proof (cases "rc = SQLITE_ROW \<and> i < n")
    case True
    with "1.IH" [of rc "(d', stmt')" d' stmt'] s eq "1.prems"
    show ?thesis by (subst fetch_ids.simps) (simp add: s)
  next
    case False
    with s eq show ?thesis by (subst fetch_ids.simps) auto
  qed
qed

lemma fetch_metadata_db:
  "is_select (stmt_sql stmt) \<Longrightarrow> fst (snd (snd (fetch_metadata e d stmt i n ms))) = d"
proof (induction e d stmt i n ms rule: fetch_metadata.induct)
  case (1 e d stmt i n ms)
  obtain rc d' stmt' where s: "sqlite3_step e d stmt = (rc, d', stmt')"
    by (cases "sqlite3_step e d stmt") auto
  from step_select_db [OF "1.prems", of e d] s
  have eq: "d' = d" "stmt_sql stmt' = stmt_sql stmt" by auto
  show ?case
  proof (cases "rc = SQLITE_ROW \<and> i < n")
    case True
    with "1.IH" [of rc "(d', stmt')" d' stmt'] s eq "1.prems"
    show ?thesis by (subst fetch_metadata.simps) (simp add: s)
  next
    case False
    with s eq show ?thesis by (subst fetch_metadata.simps) auto
  qed
qed

lemma step_select_same:
  "sqlite3_step e d stmt = (rc, d', stmt') \<Longrightarrow> is_select (stmt_sql stmt) \<Longrightarrow> d' = d"
  using step_select_db(1) [of stmt e d] by simp

lemma count_rows_same:
  "count_rows e d stmt n = (k, d', stmt') \<Longrightarrow> is_select (stmt_sql stmt) \<Longrightarrow>
     d' = d \<and> stmt_sql stmt' = stmt_sql stmt"
  using count_rows_db [of stmt e d n] by simp

lemma fetch_ids_same:
  "fetch_ids e d stmt i n ids = (k, ids', d', stmt') \<Longrightarrow> is_select (stmt_sql stmt) \<Longrightarrow> d' = d"
  using fetch_ids_db [of stmt e d i n ids] by simp

lemma fetch_metadata_same:
  "fetch_metadata e d stmt i n ms = (k, ms', d', stmt') \<Longrightarrow> is_select (stmt_sql stmt) \<Longrightarrow> d' = d"
  using fetch_metadata_db [of stmt e d i n ms] by simp

lemma get_bundle_db:
  "snd (snd (snd (csqlite_get_bundle e db bundle_id bundle_data bundle_size))) = db"
  by (cases db; cases bundle_id; cases bundle_data; cases bundle_size)
     (auto simp: sqlite3_prepare_v2_def sqlite3_bind_text_def Let_def
           split: sum.splits prod.splits option.splits dest!: step_select_same)

lemma get_metadata_db:
  "snd (snd (csqlite_get_metadata e db bundle_id metadata)) = db"
  by (cases db; cases bundle_id; cases metadata)
     (auto simp: sqlite3_prepare_v2_def sqlite3_bind_text_def Let_def
           split: sum.splits prod.splits option.splits dest!: step_select_same)

lemma has_bundle_db:
  "snd (snd (csqlite_has_bundle e db bundle_id exists)) = db"
  by (cases db; cases bundle_id; cases exists)
     (auto simp: sqlite3_prepare_v2_def sqlite3_bind_text_def Let_def
           split: sum.splits prod.splits option.splits dest!: step_select_same)

lemma count_bundles_db:
  "snd (csqlite_count_bundles e db) = db"
  by (cases db)
     (auto simp: sqlite3_prepare_v2_def Let_def
           split: sum.splits prod.splits option.splits dest!: step_select_same)

lemma get_all_ids_db:
  "snd (snd (snd (csqlite_get_all_ids e db ids count))) = db"
  by (cases db; cases ids; cases count)
     (auto simp: sqlite3_prepare_v2_def sqlite3_reset_def Let_def
           split: sum.splits prod.splits option.splits
           dest!: count_rows_same fetch_ids_same)

lemma get_all_metadata_db:
  "snd (snd (snd (csqlite_get_all_metadata e db metadata count))) = db"
  by (cases db; cases metadata; cases count)
     (auto simp: sqlite3_prepare_v2_def sqlite3_reset_def Let_def
           split: sum.splits prod.splits option.splits
           dest!: count_rows_same fetch_metadata_same)

subsection \<open>The referential invariant along a sequence of calls\<close>

text \<open>
  From a new database with foreign keys enforced, every sequence of stores, updates and
  removals keeps the invariant, whatever else the backend fails to do, as long as a
  rollback runs when the code asks for one and every stored record names its id.
\<close>

lemma store_bundle_outcomes:
  assumes "runs e ROLLBACK"
  shows "\<exists>d'. snd (csqlite_store_bundle e (Some d) bundle_id bundle_data n metadata) = Some d'
     \<and> foreign_keys d' = foreign_keys d
     \<and> (bundles d' = bundles d \<and> bundle_metadata d' = bundle_metadata d
        \<or> (\<exists>i p m. bundle_id = Some i \<and> bundle_data = Some p \<and> metadata = Some m
            \<and> bundles d' = bundles d @ [stored_bundle e i p n]
            \<and> bundle_metadata d' = bundle_metadata d @ [stored_metadata m]
            \<and> \<not> list_ex (\<lambda>r. r_id r \<noteq> NULL \<and> r_id r = text_val (m_id m)) (bundle_metadata d)
            \<and> (foreign_keys d \<and> text_val (m_id m) \<noteq> NULL \<longrightarrow>
                 list_ex (\<lambda>r. b_id r = text_val (m_id m)) (bundles d @ [stored_bundle e i p n]))))"
proof (cases "\<exists>i p m. bundle_id = Some i \<and> bundle_data = Some p \<and> metadata = Some m")
  case True
  then obtain i p m where a: "bundle_id = Some i" "bundle_data = Some p" "metadata = Some m"
    by blast
  show ?thesis
    using assms unfolding a
    by (auto simp: sqlite3_api runs_def Let_def text_val_def blob_val_def stored_bundle_def
          stored_metadata_def list_ex_iff
        split: option.splits if_splits prod.splits sum.splits)
next
  case False
  then show ?thesis
    by (cases bundle_id; cases bundle_data; cases metadata) auto
qed

lemma referential_store:
  assumes run: "runs e ROLLBACK" and inv: "referential d" "foreign_keys d"
    and nm: "names_metadata (Store bundle_id bundle_data n metadata)"
  shows "\<exists>d'. perform e (Store bundle_id bundle_data n metadata) (Some d) = Some d'
     \<and> referential d' \<and> foreign_keys d'"
proof -
  from store_bundle_outcomes [OF run, of d bundle_id bundle_data n metadata]
  obtain d' where
    d': "snd (csqlite_store_bundle e (Some d) bundle_id bundle_data n metadata) = Some d'"
        "foreign_keys d' = foreign_keys d"
    and alt: "bundles d' = bundles d \<and> bundle_metadata d' = bundle_metadata d
        \<or> (\<exists>i p m. bundle_id = Some i \<and> bundle_data = Some p \<and> metadata = Some m
            \<and> bundles d' = bundles d @ [stored_bundle e i p n]
            \<and> bundle_metadata d' = bundle_metadata d @ [stored_metadata m]
            \<and> \<not> list_ex (\<lambda>r. r_id r \<noteq> NULL \<and> r_id r = text_val (m_id m)) (bundle_metadata d)
            \<and> (foreign_keys d \<and> text_val (m_id m) \<noteq> NULL \<longrightarrow>
                 list_ex (\<lambda>r. b_id r = text_val (m_id m)) (bundles d @ [stored_bundle e i p n])))"
    by blast
  from alt have "referential d'"
  proof
    assume "bundles d' = bundles d \<and> bundle_metadata d' = bundle_metadata d"
    with inv(1) show ?thesis by (simp add: referential_def)
  next
    assume "\<exists>i p m. bundle_id = Some i \<and> bundle_data = Some p \<and> metadata = Some m
            \<and> bundles d' = bundles d @ [stored_bundle e i p n]
            \<and> bundle_metadata d' = bundle_metadata d @ [stored_metadata m]
            \<and> \<not> list_ex (\<lambda>r. r_id r \<noteq> NULL \<and> r_id r = text_val (m_id m)) (bundle_metadata d)
            \<and> (foreign_keys d \<and> text_val (m_id m) \<noteq> NULL \<longrightarrow>
                 list_ex (\<lambda>r. b_id r = text_val (m_id m)) (bundles d @ [stored_bundle e i p n]))"
    then obtain i p m where
      s: "metadata = Some m"
         "bundles d' = bundles d @ [stored_bundle e i p n]"
         "bundle_metadata d' = bundle_metadata d @ [stored_metadata m]"
         "\<not> list_ex (\<lambda>r. r_id r \<noteq> NULL \<and> r_id r = text_val (m_id m)) (bundle_metadata d)"
         "foreign_keys d \<and> text_val (m_id m) \<noteq> NULL \<longrightarrow>
            list_ex (\<lambda>r. b_id r = text_val (m_id m)) (bundles d @ [stored_bundle e i p n])"
      by blast
    from nm s(1) obtain j where j: "m_id m = Some j" by auto
    have fresh: "\<forall>r \<in> set (bundle_metadata d). r_id r \<noteq> TEXT j"
      using s(4) by (auto simp: j text_val_def list_ex_iff)
    have "\<not> (\<exists>b \<in> set (bundles d). b_id b = TEXT j)"
    proof
      assume "\<exists>b \<in> set (bundles d). b_id b = TEXT j"
      then obtain b where "b \<in> set (bundles d)" "b_id b = TEXT j" by blast
      with inv(1) obtain r where "r \<in> set (bundle_metadata d)" "r_id r = TEXT j"
        by (auto simp: referential_def list_all_iff list_ex_iff)
      with fresh show False by blast
    qed
    with s(5) inv(2) have "j = i"
      by (auto simp: j text_val_def list_ex_iff stored_bundle_def)
    then have "r_id (stored_metadata m) = b_id (stored_bundle e i p n)"
      by (simp add: stored_metadata_def stored_bundle_def j text_val_def)
    with inv(1) show ?thesis
      unfolding referential_def s(2,3)
      by (auto simp: list_all_iff list_ex_iff)
  qed
  with d' inv(2) show ?thesis by simp
qed

lemma referential_iff:
  "referential d \<longleftrightarrow> b_id ` set (bundles d) = r_id ` set (bundle_metadata d)"
proof -
  have "(\<forall>b\<in>B. \<exists>m\<in>M. g m = f b) \<and> (\<forall>m\<in>M. \<exists>b\<in>B. f b = g m) \<longleftrightarrow> f ` B = g ` M"
    for f :: "'a \<Rightarrow> 'c" and g :: "'b \<Rightarrow> 'c" and B M
    by (rule iffI) (force, metis (no_types, lifting) image_iff)
  then show ?thesis
    by (simp add: referential_def list_all_iff list_ex_iff)
qed

lemma update_outcomes:
  "\<exists>d'. snd (csqlite_update_metadata e (Some d) metadata) = Some d'
     \<and> foreign_keys d' = foreign_keys d \<and> bundles d' = bundles d
     \<and> map r_id (bundle_metadata d') = map r_id (bundle_metadata d)"
proof -
  have ids: "map r_id (map (\<lambda>r. if c r then
        r\<lparr>r_source := a, r_destination := b, r_creation_time := t, r_size := s,
          r_constraints := k\<rparr> else r) rows) = map r_id rows"
    for c a b t s k and rows :: "metadata_row list"
    by (induction rows) auto
  show ?thesis
    by (cases metadata)
       (auto simp: sqlite3_api Let_def ids
          split: option.splits if_splits prod.splits sum.splits)
qed

lemma referential_update:
  assumes "referential d" "foreign_keys d"
  shows "\<exists>d'. perform e (Update metadata) (Some d) = Some d' \<and> referential d' \<and> foreign_keys d'"
proof -
  from update_outcomes [of e d metadata] obtain d' where
    d': "snd (csqlite_update_metadata e (Some d) metadata) = Some d'"
        "foreign_keys d' = foreign_keys d" "bundles d' = bundles d"
        "map r_id (bundle_metadata d') = map r_id (bundle_metadata d)"
    by blast
  from d'(4) have "set (map r_id (bundle_metadata d')) = set (map r_id (bundle_metadata d))"
    by simp
  then have "r_id ` set (bundle_metadata d') = r_id ` set (bundle_metadata d)"
    by simp
  with assms d' show ?thesis by (simp add: referential_iff)
qed

lemma referential_remove:
  assumes "referential d" "foreign_keys d"
  shows "\<exists>d'. perform e (Remove bundle_id) (Some d) = Some d' \<and> referential d' \<and> foreign_keys d'"
proof (cases bundle_id)
  case None
  with assms show ?thesis by simp
next
  case (Some i)
  have keep: "list_all (\<lambda>b. list_ex (\<lambda>m. r_id m = b_id b)
                 (filter (\<lambda>r. r_id r \<noteq> TEXT i) (bundle_metadata d)))
               (filter (\<lambda>r. b_id r \<noteq> TEXT i) (bundles d))
     \<and> list_all (\<lambda>m. list_ex (\<lambda>b. b_id b = r_id m)
                 (filter (\<lambda>r. b_id r \<noteq> TEXT i) (bundles d)))
               (filter (\<lambda>r. r_id r \<noteq> TEXT i) (bundle_metadata d))"
    using assms(1) unfolding referential_def list_all_iff list_ex_iff set_filter
    by (intro conjI ballI; simp; metis)
  have none: "\<not> list_ex (\<lambda>r. b_id r = TEXT i) (bundles d) \<Longrightarrow>
      filter (\<lambda>r. b_id r \<noteq> TEXT i) (bundles d) = bundles d"
    by (auto simp: list_ex_iff filter_id_conv)
  show ?thesis
    using assms keep none unfolding Some
    by (auto simp: sqlite3_api Let_def referential_def
          split: option.splits if_splits prod.splits sum.splits)
qed

lemma referential_run:
  assumes "referential d" "foreign_keys d"
    and "list_all (\<lambda>(e, c). runs e ROLLBACK \<and> names_metadata c) cs"
  shows "\<exists>d'. run cs (Some d) = Some d' \<and> referential d' \<and> foreign_keys d'"
  using assms
proof (induction cs arbitrary: d)
  case Nil
  then show ?case by simp
next
  case (Cons x cs)
  obtain e c where x: "x = (e, c)" by (cases x)
  from Cons.prems(3) have ec: "runs e ROLLBACK" "names_metadata c"
    and rest: "list_all (\<lambda>(e, c). runs e ROLLBACK \<and> names_metadata c) cs"
    by (simp_all add: x)
  have "\<exists>d1. perform e c (Some d) = Some d1 \<and> referential d1 \<and> foreign_keys d1"
  proof (cases c)
    case (Store i p n m)
    with referential_store [OF ec(1) Cons.prems(1,2), of i p n m] ec(2) show ?thesis by simp
  next
    case (Update m)
    with referential_update [OF Cons.prems(1,2), of e m] show ?thesis by simp
  next
    case (Remove i)
    with referential_remove [OF Cons.prems(1,2), of e i] show ?thesis by simp
  qed
  then obtain d1 where d1: "perform e c (Some d) = Some d1" "referential d1" "foreign_keys d1"
    by blast
  from Cons.IH [OF d1(2,3) rest] d1(1) show ?case by (simp add: x)
qed

lemma csqlite_open_foreign_keys:
  assumes "csqlite_open e path result = (Some d, result')" and "runs e PRAGMA_foreign_keys"
  shows "foreign_keys d"
  using assms
  by (auto simp: csqlite_open_def sqlite3_open_def sqlite3_api runs_def Let_def
      split: option.splits if_splits prod.splits sum.splits)

lemma referential_absent:
  "referential d \<Longrightarrow> \<not> bundle_exists d i \<Longrightarrow> \<not> metadata_exists d i"
  unfolding referential_def bundle_exists_def metadata_exists_def list_all_iff list_ex_iff
  by metis

lemma csqlite_open_new:
  assumes "csqlite_open e path result = (Some d, result')"
    and "runs e PRAGMA_foreign_keys" and "disk e path = ([], [])"
  shows "referential d \<and> foreign_keys d"
  using assms
  by (auto simp: csqlite_open_def sqlite3_open_def sqlite3_api runs_def referential_def Let_def
      split: option.splits if_splits prod.splits sum.splits)

lemma referential_invariant:
  assumes "csqlite_open e path result = (Some d, result')"
    and "runs e PRAGMA_foreign_keys" and "disk e path = ([], [])"
    and "list_all (\<lambda>(e, c). runs e ROLLBACK \<and> names_metadata c) cs"
  shows "\<exists>d'. run cs (Some d) = Some d' \<and> referential d'
     \<and> (\<forall>i. metadata_exists d' i \<longleftrightarrow> bundle_exists d' i)"
proof -
  from csqlite_open_new [OF assms(1-3)] referential_run [OF _ _ assms(4), of d]
  obtain d' where d': "run cs (Some d) = Some d'" "referential d'" by blast
  have "metadata_exists d' i \<longleftrightarrow> bundle_exists d' i" for i
    using d'(2)
    by (auto simp: referential_def metadata_exists_def bundle_exists_def list_all_iff list_ex_iff)
       (metis+)
  with d' show ?thesis by blast
qed

section \<open>The claims\<close>

text \<open>
  A claim that promises a result of the backend is stated for an environment in which
  the backend compiles and runs the statements of the call (\<open>runs\<close>) and the
  allocations of the call succeed (\<open>malloc\<close>); each theorem names the statements and
  the sizes it needs. What the code returns when the backend or the allocator fails is
  part of the model, and the claims C7 and C10 hold in every environment.
\<close>

text \<open>
  Claim C1 (round trip): after \<^verbatim>\<open>csqlite_store_bundle(i, p, m)\<close> returned Ok,
  \<^verbatim>\<open>csqlite_get_bundle(i)\<close> returns Ok with the bytes of \<open>p\<close> and the length of \<open>p\<close>.
  The code does not do this for every payload. Line 86 passes \<^verbatim>\<open>(int)bundle_size\<close>
  to SQLite, which keeps the low 32 bits of the size. For a payload of 4294967296 zero
  bytes these are 0: on a new store the call returns Ok and keeps an empty payload, and
  the read returns Ok with no bytes and size 0. For sizes below 2147483648 the round
  trip holds (\<open>store_get_roundtrip\<close>).
\<close>

theorem store_bundle_truncates_size:
  "csqlite_store_bundle healthy new_store (Some ''b1'')
       (Some (replicate 4294967296 0)) 4294967296 (Some scenario_metadata)
     = (CSQLITE_OK,
        Some \<lparr>bundles = [\<lparr>b_id = TEXT ''b1'', b_data = BLOB []\<rparr>],
              bundle_metadata = [scenario_row],
              foreign_keys = True, journal = None, changes = 1\<rparr>)
   \<and> csqlite_get_bundle healthy
        (Some \<lparr>bundles = [\<lparr>b_id = TEXT ''b1'', b_data = BLOB []\<rparr>],
               bundle_metadata = [scenario_row],
               foreign_keys = True, journal = None, changes = 1\<rparr>)
        (Some ''b1'') (Some None) (Some 0)
     = (CSQLITE_OK, Some (Some []), Some 0,
        Some \<lparr>bundles = [\<lparr>b_id = TEXT ''b1'', b_data = BLOB []\<rparr>],
              bundle_metadata = [scenario_row],
              foreign_keys = True, journal = None, changes = 1\<rparr>)
   \<and> length (replicate 4294967296 (0 :: byte)) = 4294967296"
  by (simp add: new_store_eq healthy_def sqlite3_api scenario_metadata_def scenario_row_def Let_def)

text \<open>
  Claim C2 (duplicate id): if \<^verbatim>\<open>csqlite_store_bundle(i, p1, m1)\<close> returned Ok, a
  second store under \<open>i\<close> returns Constraint, and afterwards \<^verbatim>\<open>csqlite_get_bundle(i)\<close>
  still returns \<open>p1\<close> and \<^verbatim>\<open>csqlite_get_metadata(i)\<close> still returns \<open>m1\<close>. The
  second store does return Constraint and is rolled back, for every first and second
  call (\<open>duplicate_store_rolled_back\<close>). The re-reads do not return \<open>p1\<close> and \<open>m1\<close>
  for every first call, because the first store does not keep every payload and
  record it reports as stored. Below, the first store is given 4294967296 zero bytes
  and a record whose \<^verbatim>\<open>id\<close> is \<^verbatim>\<open>NULL\<close>, and returns Ok; the second store
  returns Constraint; the read of the payload then returns Ok with no bytes, and the
  read of the metadata returns NotFound. The payload is lost by the cast of line 86
  (claim C1) and the record by the missing check of line 64 (claim C3). Where the
  first store kept both, the re-reads return them (\<open>duplicate_store_keeps_first\<close>).
\<close>

theorem duplicate_store_truncated_payload:
  "csqlite_store_bundle healthy new_store (Some ''b1'')
       (Some (replicate 4294967296 0)) 4294967296 (Some (scenario_metadata\<lparr>m_id := None\<rparr>))
     = (CSQLITE_OK,
        Some \<lparr>bundles = [\<lparr>b_id = TEXT ''b1'', b_data = BLOB []\<rparr>],
              bundle_metadata = [scenario_row\<lparr>r_id := NULL\<rparr>],
              foreign_keys = True, journal = None, changes = 1\<rparr>)
   \<and> csqlite_store_bundle healthy
        (Some \<lparr>bundles = [\<lparr>b_id = TEXT ''b1'', b_data = BLOB []\<rparr>],
               bundle_metadata = [scenario_row\<lparr>r_id := NULL\<rparr>],
               foreign_keys = True, journal = None, changes = 1\<rparr>)
        (Some ''b1'') (Some [1, 2, 3]) 3 (Some scenario_metadata)
     = (CSQLITE_CONSTRAINT,
        Some \<lparr>bundles = [\<lparr>b_id = TEXT ''b1'', b_data = BLOB []\<rparr>],
              bundle_metadata = [scenario_row\<lparr>r_id := NULL\<rparr>],
              foreign_keys = True, journal = None, changes = 0\<rparr>)
   \<and> csqlite_get_bundle healthy
        (Some \<lparr>bundles = [\<lparr>b_id = TEXT ''b1'', b_data = BLOB []\<rparr>],
               bundle_metadata = [scenario_row\<lparr>r_id := NULL\<rparr>],
               foreign_keys = True, journal = None, changes = 0\<rparr>)
        (Some ''b1'') (Some None) (Some 0)
     = (CSQLITE_OK, Some (Some []), Some 0,
        Some \<lparr>bundles = [\<lparr>b_id = TEXT ''b1'', b_data = BLOB []\<rparr>],
              bundle_metadata = [scenario_row\<lparr>r_id := NULL\<rparr>],
              foreign_keys = True, journal = None, changes = 0\<rparr>)
   \<and> length (replicate 4294967296 (0 :: byte)) = 4294967296
   \<and> csqlite_get_metadata healthy
        (Some \<lparr>bundles = [\<lparr>b_id = TEXT ''b1'', b_data = BLOB []\<rparr>],
               bundle_metadata = [scenario_row\<lparr>r_id := NULL\<rparr>],
               foreign_keys = True, journal = None, changes = 0\<rparr>)
        (Some ''b1'') (Some scenario_metadata)
     = (CSQLITE_NOT_FOUND, Some scenario_metadata,
        Some \<lparr>bundles = [\<lparr>b_id = TEXT ''b1'', b_data = BLOB []\<rparr>],
              bundle_metadata = [scenario_row\<lparr>r_id := NULL\<rparr>],
              foreign_keys = True, journal = None, changes = 0\<rparr>)"
  by (simp add: new_store_eq healthy_def sqlite3_api scenario_metadata_def scenario_row_def
        Let_def metadata_columns_def)

text \<open>
  Claim C3 (referential invariant): in every state reachable through the public
  operations a metadata row with id \<open>i\<close> exists if and only if a bundle row with id \<open>i\<close>
  exists. The code breaks it. The store below is called on a new database with a
  record whose \<^verbatim>\<open>id\<close> is \<^verbatim>\<open>NULL\<close>. Line 104 binds \<open>NULL\<close>, which the primary key
  and the foreign key of the schema both admit, so the call returns Ok and leaves
  bundle \<open>b1\<close> without a metadata row and a metadata row without a bundle.
  \<^verbatim>\<open>csqlite_update_metadata\<close> rejects such a record at line 190;
  \<^verbatim>\<open>csqlite_store_bundle\<close> has no such check at line 64. When every stored record
  names its id the invariant holds in every reachable state (\<open>referential_invariant\<close>).
\<close>

theorem store_bundle_null_metadata_id:
  "csqlite_store_bundle healthy new_store (Some ''b1'')
       (Some [1, 2, 3]) 3 (Some (scenario_metadata\<lparr>m_id := None\<rparr>))
     = (CSQLITE_OK,
        Some \<lparr>bundles = [\<lparr>b_id = TEXT ''b1'', b_data = BLOB [1, 2, 3]\<rparr>],
              bundle_metadata = [scenario_row\<lparr>r_id := NULL\<rparr>],
              foreign_keys = True, journal = None, changes = 1\<rparr>)
   \<and> bundle_exists
        \<lparr>bundles = [\<lparr>b_id = TEXT ''b1'', b_data = BLOB [1, 2, 3]\<rparr>],
         bundle_metadata = [scenario_row\<lparr>r_id := NULL\<rparr>],
         foreign_keys = True, journal = None, changes = 1\<rparr> ''b1''
   \<and> \<not> metadata_exists
        \<lparr>bundles = [\<lparr>b_id = TEXT ''b1'', b_data = BLOB [1, 2, 3]\<rparr>],
         bundle_metadata = [scenario_row\<lparr>r_id := NULL\<rparr>],
         foreign_keys = True, journal = None, changes = 1\<rparr> ''b1''
   \<and> \<not> referential
        \<lparr>bundles = [\<lparr>b_id = TEXT ''b1'', b_data = BLOB [1, 2, 3]\<rparr>],
         bundle_metadata = [scenario_row\<lparr>r_id := NULL\<rparr>],
         foreign_keys = True, journal = None, changes = 1\<rparr>"
  by (simp add: new_store_eq healthy_def sqlite3_api scenario_metadata_def scenario_row_def Let_def
       bundle_exists_def metadata_exists_def referential_def)






text \<open>
  Claim C6 (update miss): for a record whose id \<open>i\<close> has no metadata row,
  \<^verbatim>\<open>csqlite_update_metadata\<close> returns NotFound, and both tables, the foreign-key
  switch and the transaction state are as before; only the counter of
  \<^verbatim>\<open>sqlite3_changes\<close> is 0, which is what line 216 tests. The backend is asked to run
  \<open>update_sql\<close> and nothing else: no query precedes the write. On a store that
  satisfies the referential invariant an id without a bundle row has no metadata row
  (\<open>referential_absent\<close>).
\<close>

theorem update_metadata_miss:
  assumes "runs e update_sql" and "m_id m = Some i" and "\<not> metadata_exists d i"
  shows "csqlite_update_metadata e (Some d) (Some m)
         = (CSQLITE_NOT_FOUND, Some (d\<lparr>changes := 0\<rparr>))"
proof -
  have "map (\<lambda>r. if sql_eq (r_id r) (TEXT i) then f r else r) (bundle_metadata d) = bundle_metadata d" for f
    using assms(3) by (intro map_idI) (auto simp: metadata_exists_def list_ex_iff sql_eq_def)
  moreover have "list_ex (\<lambda>r. sql_eq (r_id r) (TEXT i)) (bundle_metadata d) = False"
    using assms(3) by (auto simp: metadata_exists_def list_ex_iff sql_eq_def)
  ultimately show ?thesis
  using assms
  by (simp add: sqlite3_api runs_def Let_def metadata_exists_def filter_absent)
qed

text \<open>The theorem at the scenario: an update for \<open>b2\<close>, which was never stored.\<close>

theorem update_metadata_miss_witness:
  "runs healthy update_sql \<and> m_id (scenario_metadata\<lparr>m_id := Some ''b2''\<rparr>) = Some ''b2''
   \<and> \<not> metadata_exists scenario_store ''b2''
   \<and> csqlite_update_metadata healthy (Some scenario_store)
        (Some (scenario_metadata\<lparr>m_id := Some ''b2''\<rparr>))
     = (CSQLITE_NOT_FOUND, Some (scenario_store\<lparr>changes := 0\<rparr>))"
proof -
  have ne: "\<not> metadata_exists scenario_store ''b2''"
    by (simp add: metadata_exists_def scenario_store_def scenario_row_def)
  have i: "m_id (scenario_metadata\<lparr>m_id := Some ''b2''\<rparr>) = Some ''b2''"
    by simp
  note u = update_metadata_miss [OF runs_healthy i ne]
  note r = runs_healthy [of update_sql]
  show ?thesis by (intro conjI) (fact ne i u r)+
qed

text \<open>
  Claim C7 (argument validation), for pointers that are \<^verbatim>\<open>NULL\<close>: each operation that
  returns a result code returns Error when the handle, the bundle id, a buffer, the
  metadata pointer or an output pointer is \<^verbatim>\<open>NULL\<close> (for the update also when the
  record's id is), in every environment, and returns the connection and the caller's
  cells as they were; \<^verbatim>\<open>csqlite_count_bundles\<close> returns 0 on a \<^verbatim>\<open>NULL\<close> handle.
\<close>

theorem null_arguments_rejected:
  "(db = None \<or> bundle_id = None \<or> bundle_data = None \<or> metadata = None \<longrightarrow>
      csqlite_store_bundle e db bundle_id bundle_data bundle_size metadata = (CSQLITE_ERROR, db))
   \<and> (db = None \<or> bundle_id = None \<or> data_out = None \<or> size_out = None \<longrightarrow>
      csqlite_get_bundle e db bundle_id data_out size_out
      = (CSQLITE_ERROR, data_out, size_out, db))
   \<and> (db = None \<or> bundle_id = None \<or> metadata_out = None \<longrightarrow>
      csqlite_get_metadata e db bundle_id metadata_out = (CSQLITE_ERROR, metadata_out, db))
   \<and> (db = None \<or> (\<forall>m. metadata = Some m \<longrightarrow> m_id m = None) \<longrightarrow>
      csqlite_update_metadata e db metadata = (CSQLITE_ERROR, db))
   \<and> (db = None \<or> bundle_id = None \<longrightarrow>
      csqlite_remove_bundle e db bundle_id = (CSQLITE_ERROR, db))
   \<and> (db = None \<or> bundle_id = None \<or> exists_out = None \<longrightarrow>
      csqlite_has_bundle e db bundle_id exists_out = (CSQLITE_ERROR, exists_out, db))
   \<and> (db = None \<or> ids_out = None \<or> count_out = None \<longrightarrow>
      csqlite_get_all_ids e db ids_out count_out = (CSQLITE_ERROR, ids_out, count_out, db))
   \<and> (db = None \<or> array_out = None \<or> count_out = None \<longrightarrow>
      csqlite_get_all_metadata e db array_out count_out
      = (CSQLITE_ERROR, array_out, count_out, db))
   \<and> csqlite_count_bundles e None = (0, None)"
proof -
  have 1: "db = None \<or> bundle_id = None \<or> bundle_data = None \<or> metadata = None \<longrightarrow>
      csqlite_store_bundle e db bundle_id bundle_data bundle_size metadata = (CSQLITE_ERROR, db)"
    by (cases db; cases bundle_id; cases bundle_data; cases metadata) simp_all
  have 2: "db = None \<or> bundle_id = None \<or> data_out = None \<or> size_out = None \<longrightarrow>
      csqlite_get_bundle e db bundle_id data_out size_out
      = (CSQLITE_ERROR, data_out, size_out, db)"
    by (cases db; cases bundle_id; cases data_out; cases size_out) simp_all
  have 3: "db = None \<or> bundle_id = None \<or> metadata_out = None \<longrightarrow>
      csqlite_get_metadata e db bundle_id metadata_out = (CSQLITE_ERROR, metadata_out, db)"
    by (cases db; cases bundle_id; cases metadata_out) simp_all
  have 4: "db = None \<or> (\<forall>m. metadata = Some m \<longrightarrow> m_id m = None) \<longrightarrow>
      csqlite_update_metadata e db metadata = (CSQLITE_ERROR, db)"
    by (cases db; cases metadata) simp_all
  have 5: "db = None \<or> bundle_id = None \<longrightarrow>
      csqlite_remove_bundle e db bundle_id = (CSQLITE_ERROR, db)"
    by (cases db; cases bundle_id) simp_all
  have 6: "db = None \<or> bundle_id = None \<or> exists_out = None \<longrightarrow>
      csqlite_has_bundle e db bundle_id exists_out = (CSQLITE_ERROR, exists_out, db)"
    by (cases db; cases bundle_id; cases exists_out) simp_all
  have 7: "db = None \<or> ids_out = None \<or> count_out = None \<longrightarrow>
      csqlite_get_all_ids e db ids_out count_out = (CSQLITE_ERROR, ids_out, count_out, db)"
    by (cases db; cases ids_out; cases count_out) simp_all
  have 8: "db = None \<or> array_out = None \<or> count_out = None \<longrightarrow>
      csqlite_get_all_metadata e db array_out count_out
      = (CSQLITE_ERROR, array_out, count_out, db)"
    by (cases db; cases array_out; cases count_out) simp_all
  from 1 2 3 4 5 6 7 8 show ?thesis by simp
qed

text \<open>The theorem at the stored scenario, with the mandatory pointers \<^verbatim>\<open>NULL\<close>.\<close>

theorem null_arguments_rejected_witness:
  "csqlite_store_bundle healthy (Some scenario_store) None (Some [1]) 1 (Some scenario_metadata)
     = (CSQLITE_ERROR, Some scenario_store)
   \<and> csqlite_get_bundle healthy (Some scenario_store) None (Some None) (Some 0)
     = (CSQLITE_ERROR, Some None, Some 0, Some scenario_store)
   \<and> csqlite_get_metadata healthy (Some scenario_store) None (Some scenario_metadata)
     = (CSQLITE_ERROR, Some scenario_metadata, Some scenario_store)
   \<and> csqlite_update_metadata healthy (Some scenario_store) None
     = (CSQLITE_ERROR, Some scenario_store)
   \<and> csqlite_remove_bundle healthy (Some scenario_store) None
     = (CSQLITE_ERROR, Some scenario_store)
   \<and> csqlite_has_bundle healthy (Some scenario_store) None (Some False)
     = (CSQLITE_ERROR, Some False, Some scenario_store)
   \<and> csqlite_get_all_ids healthy (Some scenario_store) None (Some 0)
     = (CSQLITE_ERROR, None, Some 0, Some scenario_store)
   \<and> csqlite_get_all_metadata healthy (Some scenario_store) None (Some 0)
     = (CSQLITE_ERROR, None, Some 0, Some scenario_store)
   \<and> csqlite_count_bundles healthy None = (0, None)"
  using null_arguments_rejected [where e = healthy and db = "Some scenario_store"
      and bundle_id = None and bundle_data = "Some [1]" and bundle_size = 1
      and metadata = None and data_out = "Some None" and size_out = "Some 0"
      and metadata_out = "Some scenario_metadata" and exists_out = "Some False"
      and ids_out = None and count_out = "Some 0" and array_out = None]
  by simp

text \<open>
  The claim also names empty identifiers. The guards of the source test pointers only:
  a store under the empty string on a new database returns Ok and persists both rows.
\<close>

theorem empty_bundle_id_stored:
  "csqlite_store_bundle healthy new_store (Some '''')
       (Some [1, 2, 3]) 3 (Some (scenario_metadata\<lparr>m_id := Some ''''\<rparr>))
     = (CSQLITE_OK,
        Some \<lparr>bundles = [\<lparr>b_id = TEXT '''', b_data = BLOB [1, 2, 3]\<rparr>],
              bundle_metadata = [scenario_row\<lparr>r_id := TEXT ''''\<rparr>],
              foreign_keys = True, journal = None, changes = 1\<rparr>)"
  by (simp add: new_store_eq healthy_def sqlite3_api scenario_metadata_def scenario_row_def Let_def)



text \<open>
  Claim C9 (remove miss): for an id with no bundle row \<^verbatim>\<open>csqlite_remove_bundle\<close>
  returns NotFound; both tables, the foreign-key switch and the transaction state are
  as before, only the counter of \<^verbatim>\<open>sqlite3_changes\<close> is 0; and
  \<^verbatim>\<open>csqlite_count_bundles\<close> returns the same value before and after, in any
  environment.
\<close>

theorem remove_miss:
  assumes "runs e delete_sql" and "\<not> bundle_exists d i"
  shows "csqlite_remove_bundle e (Some d) (Some i) = (CSQLITE_NOT_FOUND, Some (d\<lparr>changes := 0\<rparr>))
       \<and> fst (csqlite_count_bundles e' (Some (d\<lparr>changes := 0\<rparr>)))
         = fst (csqlite_count_bundles e' (Some d))"
  using assms
  by (auto simp: sqlite3_api runs_def Let_def bundle_exists_def filter_absent
        list_ex_iff sql_eq_def filter_id_conv
      split: sum.splits option.splits prod.splits intro!: sqlite3.equality)

text \<open>The theorem at the scenario: a removal of \<open>b2\<close>, which was never stored.\<close>

theorem remove_miss_witness:
  "runs healthy delete_sql \<and> \<not> bundle_exists scenario_store ''b2''
   \<and> csqlite_remove_bundle healthy (Some scenario_store) (Some ''b2'')
     = (CSQLITE_NOT_FOUND, Some (scenario_store\<lparr>changes := 0\<rparr>))
   \<and> fst (csqlite_count_bundles healthy (Some (scenario_store\<lparr>changes := 0\<rparr>))) = 1
   \<and> fst (csqlite_count_bundles healthy (Some scenario_store)) = 1"
proof -
  have ne: "\<not> bundle_exists scenario_store ''b2''"
    by (simp add: bundle_exists_def scenario_store_def)
  have c: "fst (csqlite_count_bundles healthy (Some scenario_store)) = 1"
    by (simp add: scenario_store_def healthy_def sqlite3_api Let_def)
  from remove_miss [OF runs_healthy ne, where e' = healthy]
  have rm: "csqlite_remove_bundle healthy (Some scenario_store) (Some ''b2'')
     = (CSQLITE_NOT_FOUND, Some (scenario_store\<lparr>changes := 0\<rparr>))"
    and same: "fst (csqlite_count_bundles healthy (Some (scenario_store\<lparr>changes := 0\<rparr>)))
      = fst (csqlite_count_bundles healthy (Some scenario_store))"
    by blast+
  from same have c0: "fst (csqlite_count_bundles healthy (Some (scenario_store\<lparr>changes := 0\<rparr>))) = 1"
    unfolding c .
  note r = runs_healthy [of delete_sql]
  show ?thesis by (intro conjI) (fact ne rm c c0 r)+
qed

text \<open>
  Claim C10 (queries are read-only): each of \<^verbatim>\<open>csqlite_get_bundle\<close>,
  \<^verbatim>\<open>csqlite_get_metadata\<close>, \<^verbatim>\<open>csqlite_has_bundle\<close>, \<^verbatim>\<open>csqlite_count_bundles\<close>,
  \<^verbatim>\<open>csqlite_get_all_ids\<close> and \<^verbatim>\<open>csqlite_get_all_metadata\<close> returns the connection
  it was given, for every environment, every argument and every result.
\<close>

theorem queries_read_only:
  "snd (snd (snd (csqlite_get_bundle e db bundle_id data_out size_out))) = db
   \<and> snd (snd (csqlite_get_metadata e db bundle_id metadata_out)) = db
   \<and> snd (snd (csqlite_has_bundle e db bundle_id exists_out)) = db
   \<and> snd (csqlite_count_bundles e db) = db
   \<and> snd (snd (snd (csqlite_get_all_ids e db ids_out count_out))) = db
   \<and> snd (snd (snd (csqlite_get_all_metadata e db array_out count_out))) = db"
  by (simp only: get_bundle_db get_metadata_db has_bundle_db count_bundles_db get_all_ids_db
        get_all_metadata_db)

text \<open>The theorem at the stored scenario.\<close>

theorem queries_read_only_witness:
  "snd (snd (snd (csqlite_get_bundle healthy (Some scenario_store) (Some ''b1'') (Some None)
       (Some 0)))) = Some scenario_store
   \<and> snd (snd (csqlite_get_metadata healthy (Some scenario_store) (Some ''b1'')
       (Some scenario_metadata))) = Some scenario_store
   \<and> snd (snd (csqlite_has_bundle healthy (Some scenario_store) (Some ''b1'') (Some False)))
     = Some scenario_store
   \<and> snd (csqlite_count_bundles healthy (Some scenario_store)) = Some scenario_store
   \<and> snd (snd (snd (csqlite_get_all_ids healthy (Some scenario_store) (Some None) (Some 0))))
     = Some scenario_store
   \<and> snd (snd (snd (csqlite_get_all_metadata healthy (Some scenario_store) (Some None)
       (Some 0)))) = Some scenario_store"
  by (rule queries_read_only)

end
